theory Spec2Isabelle
  imports Main "HOL-Library.AList"
begin

section \<open>Go standard-library string helpers\<close>

text \<open>
  Go strings are byte sequences; they are modelled as \<open>string\<close> (a list of 8-bit
  characters).  Where a library function decodes its argument it reads the bytes as
  UTF-8, and so do the helpers below.
\<close>

definition toLower_char :: "char \<Rightarrow> char" where
  "toLower_char c =
     (case map_of (zip ''ABCDEFGHIJKLMNOPQRSTUVWXYZ'' ''abcdefghijklmnopqrstuvwxyz'') c of
        Some l \<Rightarrow> l
      | None \<Rightarrow> c)"

text \<open>A string is ASCII when no byte has its top bit set (\<open>c < utf8.RuneSelf\<close>).\<close>

definition isASCII :: "string \<Rightarrow> bool" where
  "isASCII s = list_all (\<lambda>c. \<not> digit7 c) s"

text \<open>
  \<open>strings.ToLower\<close>.  A string of ASCII bytes is lowered byte by byte, and only the
  letters \<open>A\<close> to \<open>Z\<close> change.  Any other string goes through
  \<open>strings.Map(unicode.ToLower, s)\<close>, which decodes the runes and lowers each by the
  Unicode case tables; that function of the library is the parameter \<open>unicode_lower\<close>.
\<close>

definition ToLower :: "(string \<Rightarrow> string) \<Rightarrow> string \<Rightarrow> string" where
  "ToLower unicode_lower s = (if isASCII s then map toLower_char s else unicode_lower s)"

text \<open>\<open>strings.HasPrefix\<close>\<close>

definition HasPrefix :: "string \<Rightarrow> string \<Rightarrow> bool" where
  "HasPrefix s pre = (take (length pre) s = pre)"


text \<open>
  \<open>filepath.Ext\<close>: the suffix beginning at the final dot in the final
  slash-separated element of the path; empty if there is no dot.  The scan runs from the
  end of the path towards its start, as the library's loop does.
\<close>

fun ext_scan :: "string \<Rightarrow> string \<Rightarrow> string" where
  "ext_scan [] acc = []"
| "ext_scan (c # cs) acc =
     (if c = CHR ''/'' then []
      else if c = CHR ''.'' then c # acc
      else ext_scan cs (c # acc))"

definition filepath_Ext :: "string \<Rightarrow> string" where
  "filepath_Ext p = ext_scan (rev p) []"

text \<open>\<open>path.IsAbs\<close>\<close>

definition IsAbs :: "string \<Rightarrow> bool" where
  "IsAbs p = (case p of [] \<Rightarrow> False | c # _ \<Rightarrow> c = CHR ''/'')"

text \<open>\<open>strings.Split\<close> with a one-byte separator: at least one piece is returned.\<close>

fun Split :: "string \<Rightarrow> char \<Rightarrow> string list" where
  "Split [] sep = [[]]"
| "Split (c # cs) sep =
     (if c = sep then [] # Split cs sep
      else (case Split cs sep of
              [] \<Rightarrow> [[c]]
            | piece # pieces \<Rightarrow> (c # piece) # pieces))"

text \<open>\<open>strings.Join\<close>\<close>

fun JoinStrings :: "string list \<Rightarrow> string \<Rightarrow> string" where
  "JoinStrings [] sep = []"
| "JoinStrings [e] sep = e"
| "JoinStrings (e # es) sep = e @ sep @ JoinStrings es sep"

text \<open>
  \<open>path.Clean\<close>.  The library scans the bytes once and keeps an output buffer; the
  elements between slashes are processed here in the same order, with the buffer held as
  the reversed list \<open>out\<close> of the elements written so far.  An empty element and
  \<open>.\<close> are skipped; \<open>..\<close> removes the last element written unless that is itself a
  \<open>..\<close> kept at the front of an unrooted path; at the root it is dropped.
\<close>

fun clean_elems :: "bool \<Rightarrow> string list \<Rightarrow> string list \<Rightarrow> string list" where
  "clean_elems rooted [] out = rev out"
| "clean_elems rooted (e # es) out =
     (if e = [] \<or> e = ''.'' then clean_elems rooted es out
      else if e = ''..'' then
        (case out of
           [] \<Rightarrow> if rooted then clean_elems rooted es [] else clean_elems rooted es [''..'']
         | t # ts \<Rightarrow> if t = ''..'' then clean_elems rooted es (''..'' # out)
                     else clean_elems rooted es ts)
      else clean_elems rooted es (e # out))"

definition Clean :: "string \<Rightarrow> string" where
  "Clean p =
     (if p = [] then ''.''
      else
        (let rooted = (hd p = CHR ''/'');
             res = (if rooted then ''/'' else []) @
                   JoinStrings (clean_elems rooted (Split p CHR ''/'') []) ''/''
         in if res = [] then ''.'' else res))"

text \<open>
  \<open>filepath.Join\<close> of two elements on Unix: empty elements are ignored and the result
  is cleaned.
\<close>

definition Join :: "string \<Rightarrow> string \<Rightarrow> string" where
  "Join a b =
     (if a \<noteq> [] then Clean (a @ ''/'' @ b)
      else if b \<noteq> [] then Clean b
      else [])"


section \<open>Push-target extraction (\<open>queryPushables\<close>)\<close>

text \<open>The node tree of \<open>golang.org/x/net/html\<close>, as far as the walker reads it.\<close>

datatype NodeType = ErrorNode | TextNode | DocumentNode | ElementNode | CommentNode | DoctypeNode

record Attribute =
  Namespace :: string
  Key :: string
  Val :: string

datatype Node = Node (Type: NodeType) (Data: string) (Attr: "Attribute list") (Children: "Node list")

text \<open>\<open>AvoidPushing\<close>: file extensions skipped when a push list is built.\<close>

definition AvoidPushing :: "string list" where
  "AvoidPushing = ['''', ''.png'', ''.webp'', ''.txt'']"

text \<open>
  The labelled loop \<open>LinkLoop\<close> over the attributes of a \<open>link\<close> element.  Its
  state is \<open>relChecked\<close>, \<open>target\<close> and \<open>avoid\<close>; \<open>break LinkLoop\<close> returns
  the state as it stands.  The first argument \<open>ul\<close> of this and the following
  functions is the Unicode path of \<open>strings.ToLower\<close>.
\<close>

fun LinkLoop :: "(string \<Rightarrow> string) \<Rightarrow> Attribute list \<Rightarrow> bool \<Rightarrow> string \<Rightarrow> bool \<Rightarrow> bool \<times> string" where
  "LinkLoop ul [] relChecked target avoid = (avoid, target)"
| "LinkLoop ul (a # as) relChecked target avoid =
     (let k = ToLower ul (Key a) in
      if k = ''rel'' then
        (let v = ToLower ul (Val a) in
         if v = ''preload'' \<or> v = ''icon'' then (True, target)
         else LinkLoop ul as True target avoid)
      else if k = ''href'' then
        (if relChecked then (avoid, Val a)
         else LinkLoop ul as relChecked (Val a) avoid)
      else LinkLoop ul as relChecked target avoid)"

text \<open>The loop \<open>ImgScriptLoop\<close>: the first \<open>src\<close> attribute is the target.\<close>

fun ImgScriptLoop :: "(string \<Rightarrow> string) \<Rightarrow> Attribute list \<Rightarrow> string \<Rightarrow> string" where
  "ImgScriptLoop ul [] target = target"
| "ImgScriptLoop ul (a # as) target =
     (if ToLower ul (Key a) = ''src'' then Val a else ImgScriptLoop ul as target)"

text \<open>The loop over the skip list: any extension equal to that of the target sets \<open>avoid\<close>.\<close>

fun avoidLoop :: "string list \<Rightarrow> string \<Rightarrow> bool \<Rightarrow> bool" where
  "avoidLoop [] target avoid = avoid"
| "avoidLoop (nopush # rest) target avoid =
     (if filepath_Ext target = nopush then True else avoidLoop rest target avoid)"

text \<open>What one node contributes to the list before its children are visited.\<close>

definition visit :: "(string \<Rightarrow> string) \<Rightarrow> string list \<Rightarrow> NodeType \<Rightarrow> string \<Rightarrow> Attribute list \<Rightarrow> string list" where
  "visit ul skip ty name attrs =
     (if ty = ElementNode then
        (let (avoid, target) =
               (if name = ''link'' then LinkLoop ul attrs False [] False
                else if name = ''img'' \<or> name = ''script'' then (False, ImgScriptLoop ul attrs [])
                else (False, []));
             avoid' = avoidLoop skip target avoid
         in if \<not> avoid' \<and> IsAbs target then [target] else [])
      else [])"

text \<open>
  The closure \<open>f\<close>: a node is visited, then its children from first to last; the list the
  closure appends to is the concatenation of the contributions in that order.
\<close>

fun walk :: "(string \<Rightarrow> string) \<Rightarrow> string list \<Rightarrow> Node \<Rightarrow> string list" where
  "walk ul skip (Node ty name attrs cs) =
     visit ul skip ty name attrs @ concat (map (walk ul skip) cs)"

datatype parse_error = ParseError

text \<open>
  \<open>queryPushables\<close>.  The parser \<open>html.Parse\<close> belongs to an external library and is a
  parameter, as is the Unicode path \<open>ul\<close> of \<open>strings.ToLower\<close>; the skip list is the
  package variable \<open>AvoidPushing\<close>.  The result is the pair of the Go function, with
  \<open>nil, err\<close> as \<open>Inl\<close>.
\<close>

definition queryPushables :: "(string \<Rightarrow> string) \<Rightarrow> (string \<Rightarrow> parse_error + Node) \<Rightarrow> string list \<Rightarrow> string \<Rightarrow> parse_error + string list" where
  "queryPushables ul parse skip content =
     (case parse content of
        Inl err \<Rightarrow> Inl err
      | Inr tree \<Rightarrow> Inr (walk ul skip tree))"

text \<open>The document of the push-list example and the tree the parser builds for it.\<close>

definition example_html :: string where
  "example_html = ''<html><head><link rel=\"stylesheet\" href=\"/s.css\"><link rel=\"preload\" href=\"/p.js\"></head><body><img src=\"/a.png\"></body></html>''"

definition attr :: "string \<Rightarrow> string \<Rightarrow> Attribute" where
  "attr k v = \<lparr>Namespace = [], Key = k, Val = v\<rparr>"

definition example_tree :: Node where
  "example_tree =
     Node DocumentNode [] []
       [Node ElementNode ''html'' []
          [Node ElementNode ''head'' []
             [Node ElementNode ''link'' [attr ''rel'' ''stylesheet'', attr ''href'' ''/s.css''] [],
              Node ElementNode ''link'' [attr ''rel'' ''preload'', attr ''href'' ''/p.js''] []],
           Node ElementNode ''body'' []
             [Node ElementNode ''img'' [attr ''src'' ''/a.png''] []]]]"

definition example_parser :: "string \<Rightarrow> parse_error + Node" where
  "example_parser s = (if s = example_html then Inr example_tree else Inl ParseError)"



section \<open>The asset cache (\<open>transplacer.go\<close>, later revision)\<close>

text \<open>
  Instants and durations are integers counted in nanoseconds on one clock; the zero
  instant is \<open>0\<close>.
\<close>

type_synonym Time = int

datatype os_error = ErrNotExist | ErrPermission | ErrIO | ErrGzip

text \<open>The three ways a Go call ends: a panic, a returned error, a returned value.\<close>

datatype ('e, 'a) outcome = Panic | Error 'e | Ok 'a

record FileInfo =
  fi_Name :: string
  fi_IsDir :: bool
  fi_ModTime :: Time

text \<open>An \<open>io.Reader\<close>: the bytes it yields, and whether reading it fails.\<close>

record Reader =
  rd_data :: string
  rd_fails :: bool

definition bytes_NewReader :: "string \<Rightarrow> Reader" where
  "bytes_NewReader b = \<lparr>rd_data = b, rd_fails = False\<rparr>"

text \<open>
  What the cache takes from the operating system and from libraries: the file system
  (\<open>os.Stat\<close>, \<open>os.Open\<close>, \<open>ioutil.ReadFile\<close>), the MIME table, the gzip writer, the
  digest (\<open>xxhash\<close>, \<open>h.Sum(nil)\<close>), the base64 encoder, the HTML parser, and the
  Unicode path of \<open>strings.ToLower\<close>.  \<open>gzip_Write env content level\<close> is what a
  writer made by \<open>gzip.NewWriterLevel\<close> at that level has put into its buffer once the
  content is written and the writer flushed and closed, or the first error of those calls.
\<close>

record Env =
  Stat :: "string \<Rightarrow> os_error + FileInfo"
  Open :: "string \<Rightarrow> os_error + Reader"
  ReadFile :: "string \<Rightarrow> os_error + string"
  TypeByExtension :: "string \<Rightarrow> string"
  gzip_Write :: "string \<Rightarrow> int \<Rightarrow> os_error + string"
  hash_Sum :: "string \<Rightarrow> string"
  base64_Encode :: "string \<Rightarrow> string"
  html_Parse :: "string \<Rightarrow> parse_error + Node"
  unicode_ToLower :: "string \<Rightarrow> string"

record Asset =
  Ext :: string
  Name :: string
  ContentType :: string
  Loaded :: Time
  ModTime :: Time
  Content :: string
  ContentCompressed :: "string option"
  CacheControl :: string
  Etag :: string
  EtagCompressed :: string
  Compressed :: bool
  PushList :: "string list"

text \<open>
  \<open>AssetCache\<close>.  The concurrent hash map \<open>Cache\<close> is an association list with one
  pair per key; \<open>Watcher\<close> is the set of watched paths, or \<open>None\<close> for a nil watcher.
  The ticker and the not-found handler are left out.
\<close>

record AssetCache =
  Dir :: string
  Index :: string
  NoIndex :: bool
  Cache :: "(string \<times> Asset) list"
  Expire :: Time
  Interval :: Time
  a_CacheControl :: string
  DevMode :: bool
  Watch :: bool
  Watcher :: "string set option"

definition Compressable :: "string list" where
  "Compressable = ['''', ''.txt'', ''.htm'', ''.html'', ''.css'', ''.toml'', ''.php'', ''.js'',
     ''.json'', ''.md'', ''.mdown'', ''.xml'', ''.svg'', ''.go'', ''.cgi'', ''.py'', ''.pl'',
     ''.aspx'', ''.asp'']"

text \<open>\<open>StringsContainCI\<close>: the loop over the list, then the function.\<close>

fun containCI_loop :: "(string \<Rightarrow> string) \<Rightarrow> string list \<Rightarrow> string \<Rightarrow> bool" where
  "containCI_loop ul [] m = False"
| "containCI_loop ul (item # rest) m =
     (if ToLower ul item = m then True else containCI_loop ul rest m)"

definition StringsContainCI :: "(string \<Rightarrow> string) \<Rightarrow> string list \<Rightarrow> string \<Rightarrow> bool" where
  "StringsContainCI ul list m = containCI_loop ul list (ToLower ul m)"

text \<open>
  \<open>PrepPath\<close>.  The byte \<open>file[len(file)-1]\<close> is read from a string that is never
  empty (lemma \<open>PrepPath_index_in_range\<close> below).
\<close>

definition PrepPath :: "string \<Rightarrow> string \<Rightarrow> string" where
  "PrepPath host file0 =
     (let file1 = Clean file0;
          file2 = (if \<not> HasPrefix file1 host then Join host file1 else file1)
      in if last file2 = CHR ''/'' then Join file2 ''index.html''
         else if filepath_Ext file2 = [] then file2 @ ''.html''
         else file2)"

text \<open>
  \<open>gzipBytes\<close>: the writer is made at the level given; any failure of the gzip writer
  is returned, else the buffer.
\<close>

definition gzipBytes :: "Env \<Rightarrow> string \<Rightarrow> int \<Rightarrow> os_error + string" where
  "gzipBytes env content level = gzip_Write env content level"

text \<open>\<open>io.Copy(h, r)\<close> into a fresh digest followed by \<open>h.Sum(nil)\<close>.\<close>

definition io_Copy_Sum :: "Env \<Rightarrow> Reader \<Rightarrow> os_error + string" where
  "io_Copy_Sum env r = (if rd_fails r then Inl ErrIO else Inr (hash_Sum env (rd_data r)))"

text \<open>\<open>fmt.Sprintf\<close> with the verb \<open>%x\<close> between double quotes: two hex digits per byte.\<close>

definition hex_digit :: "nat \<Rightarrow> char" where
  "hex_digit n = ''0123456789abcdef'' ! n"

definition hex_string :: "string \<Rightarrow> string" where
  "hex_string s = concat (map (\<lambda>c. [hex_digit (of_char c div 16), hex_digit (of_char c mod 16)]) s)"

definition etag_Sprintf :: "Env \<Rightarrow> string \<Rightarrow> string" where
  "etag_Sprintf env et = ''\"'' @ hex_string (base64_Encode env et) @ ''\"''"

text \<open>
  The part of \<open>Gen\<close> after the directory test: the file is opened and read, the asset is
  built, and only then is it stored.  Every \<open>return nil, err\<close> leaves with the cache as it
  was.  \<open>a.Watcher.Add\<close> on a nil watcher panics.
\<close>

definition GenFile :: "Env \<Rightarrow> Time \<Rightarrow> AssetCache \<Rightarrow> string \<Rightarrow> FileInfo \<Rightarrow> (os_error, Asset) outcome \<times> AssetCache" where
  "GenFile env now a name fs =
     (case Open env name of
        Inl err \<Rightarrow> (Error err, a)
      | Inr f \<Rightarrow>
     (case ReadFile env name of
        Inl err \<Rightarrow> (Error err, a)
      | Inr content \<Rightarrow>
     (let ext = filepath_Ext name;
          asset0 = \<lparr>Ext = ext, Name = fi_Name fs,
                    ContentType = TypeByExtension env ext,
                    Loaded = 0, ModTime = fi_ModTime fs,
                    Content = content, ContentCompressed = None,
                    CacheControl = a_CacheControl a,
                    Etag = [], EtagCompressed = [],
                    Compressed = StringsContainCI (unicode_ToLower env) Compressable ext,
                    PushList = []\<rparr>;
          step1 =
            (if Compressed asset0 then
               (case gzipBytes env content 9 of
                  Inl err \<Rightarrow> Inl err
                | Inr compressed \<Rightarrow>
                    (case io_Copy_Sum env (bytes_NewReader compressed) of
                       Inl err \<Rightarrow> Inl err
                     | Inr et \<Rightarrow>
                         Inr (asset0\<lparr>EtagCompressed := etag_Sprintf env et,
                                     ContentCompressed := Some compressed\<rparr>)))
             else Inr asset0)
      in case step1 of
           Inl err \<Rightarrow> (Error err, a)
         | Inr asset1 \<Rightarrow>
        (case io_Copy_Sum env f of
           Inl err \<Rightarrow> (Error err, a)
         | Inr et \<Rightarrow>
        (let asset2 = asset1\<lparr>Etag := etag_Sprintf env et, Loaded := now\<rparr>;
             asset3 =
               (if ext = ''.html'' then
                  (case queryPushables (unicode_ToLower env) (html_Parse env) AvoidPushing content of
                     Inl err \<Rightarrow> asset2
                   | Inr list \<Rightarrow> asset2\<lparr>PushList := list\<rparr>)
                else asset2)
         in if Watch a then
              (case Watcher a of
                 None \<Rightarrow> (Panic, a)
               | Some w \<Rightarrow>
                   (Ok asset3,
                    a\<lparr>Watcher := Some (insert name w),
                      Cache := AList.update name asset3 (Cache a)\<rparr>))
            else (Ok asset3, a\<lparr>Cache := AList.update name asset3 (Cache a)\<rparr>))))))"

text \<open>
  \<open>Gen\<close>.  A directory is answered by the call for its \<open>index.html\<close>; the recursion
  ends when \<open>os.Stat\<close> fails or names a file.  \<open>None\<close> stands for a run that never
  returns.  \<open>now\<close> is the reading of \<open>time.Now()\<close>.
\<close>

partial_function (option) Gen :: "Env \<Rightarrow> Time \<Rightarrow> AssetCache \<Rightarrow> string \<Rightarrow> ((os_error, Asset) outcome \<times> AssetCache) option" where
  "Gen env now a name0 =
     (let name = PrepPath (Dir a) name0 in
      case Stat env name of
        Inl err \<Rightarrow> Some (Error err, a)
      | Inr fs \<Rightarrow>
          if fi_IsDir fs then Gen env now a (Join name ''index.html'')
          else Some (GenFile env now a name fs))"

text \<open>
  \<open>Get\<close>: the asset and the flag \<open>found\<close>.  On a miss the asset is generated; the flag
  is \<open>err == nil && asset != nil\<close>.
\<close>

definition Get :: "Env \<Rightarrow> Time \<Rightarrow> AssetCache \<Rightarrow> string \<Rightarrow> ((unit, Asset option \<times> bool) outcome \<times> AssetCache) option" where
  "Get env now a name0 =
     (let name = PrepPath (Dir a) name0 in
      case map_of (Cache a) name of
        Some asset \<Rightarrow> Some (Ok (Some asset, True), a)
      | None \<Rightarrow>
          (case Gen env now a name of
             None \<Rightarrow> None
           | Some (Panic, a') \<Rightarrow> Some (Panic, a')
           | Some (Error err, a') \<Rightarrow> Some (Ok (None, False), a')
           | Some (Ok asset, a') \<Rightarrow> Some (Ok (Some asset, True), a')))"

text \<open>\<open>Del\<close>: the name is normalised again before the entry is removed.\<close>

definition Del :: "AssetCache \<Rightarrow> string \<Rightarrow> AssetCache" where
  "Del a name0 =
     (let name = PrepPath (Dir a) name0;
          a' = a\<lparr>Cache := AList.delete name (Cache a)\<rparr>
      in if Watch a' then
           (case Watcher a' of
              None \<Rightarrow> a'
            | Some w \<Rightarrow> a'\<lparr>Watcher := Some (w - {name})\<rparr>)
         else a')"

text \<open>
  One tick of the expiry sweeper started by \<open>SetExpiryCheckInterval\<close>: the entries of the
  map are visited in turn, and an entry with \<open>Loaded + Expire\<close> before \<open>now\<close> is handed
  to \<open>Del\<close> under its key.
\<close>

fun sweep :: "AssetCache \<Rightarrow> Time \<Rightarrow> (string \<times> Asset) list \<Rightarrow> AssetCache" where
  "sweep a now [] = a"
| "sweep a now (kv # kvs) =
     sweep (if Loaded (snd kv) + Expire a < now then Del a (fst kv) else a) now kvs"

definition tick :: "AssetCache \<Rightarrow> Time \<Rightarrow> AssetCache" where
  "tick a now = sweep a now (Cache a)"

text \<open>
  An \<open>http.Header\<close>: the values under each canonical key, the empty list where the key
  is absent.  \<open>Get\<close> reads the first value, \<open>Set\<close> replaces all values by one.  Header
  names are written in their canonical form throughout.
\<close>

type_synonym Header = "string \<Rightarrow> string list"

definition Header_Get :: "Header \<Rightarrow> string \<Rightarrow> string" where
  "Header_Get h k = (case h k of [] \<Rightarrow> [] | v # _ \<Rightarrow> v)"

definition Header_Set :: "Header \<Rightarrow> string \<Rightarrow> string \<Rightarrow> Header" where
  "Header_Set h k v = h(k := [v])"

definition Header_Del :: "Header \<Rightarrow> string \<Rightarrow> Header" where
  "Header_Del h k = h(k := [])"

record Request =
  Method :: string
  ReqHeader :: Header
  TLS :: bool




subsection \<open>A small file system and cache, for concrete runs\<close>

text \<open>
  The root \<open>/srv/www\<close> is a directory holding \<open>index.html\<close> and nothing else.  The
  gzip writer, the digest and the encoder are stand-ins that can be computed: the
  writer marks its output with the level when that is 9, the digest is the first two
  bytes, the encoder changes nothing.
\<close>

definition index_info :: FileInfo where
  "index_info = \<lparr>fi_Name = ''index.html'', fi_IsDir = False, fi_ModTime = 7\<rparr>"

definition fs_env :: Env where
  "fs_env = \<lparr>
     Stat = (\<lambda>p. if p = ''/srv/www'' then Inr \<lparr>fi_Name = ''www'', fi_IsDir = True, fi_ModTime = 7\<rparr>
                 else if p = ''/srv/www/index.html'' then Inr index_info
                 else Inl ErrNotExist),
     Open = (\<lambda>p. if p = ''/srv/www/index.html'' then Inr (bytes_NewReader ''<p>hi</p>'')
                 else Inl ErrNotExist),
     ReadFile = (\<lambda>p. if p = ''/srv/www/index.html'' then Inr ''<p>hi</p>'' else Inl ErrNotExist),
     TypeByExtension = (\<lambda>e. if e = ''.html'' then ''text/html; charset=utf-8'' else []),
     gzip_Write = (\<lambda>c l. if l = 9 then Inr (''gz9:'' @ c) else Inr (''gz:'' @ c)),
     hash_Sum = (\<lambda>b. take 2 b),
     base64_Encode = (\<lambda>b. b),
     html_Parse = (\<lambda>s. Inl ParseError),
     unicode_ToLower = (\<lambda>s. s)\<rparr>"

definition fs_cache :: AssetCache where
  "fs_cache = \<lparr>Dir = ''/srv/www'', Index = ''/srv/www/index.html'', NoIndex = False,
     Cache = [], Expire = 100, Interval = 30, a_CacheControl = ''private, must-revalidate'',
     DevMode = False, Watch = False, Watcher = None\<rparr>"

definition index_asset :: Asset where
  "index_asset = \<lparr>Ext = ''.html'', Name = ''index.html'',
     ContentType = ''text/html; charset=utf-8'', Loaded = 5, ModTime = 7,
     Content = ''<p>hi</p>'', ContentCompressed = Some ''gz9:<p>hi</p>'',
     CacheControl = ''private, must-revalidate'',
     Etag = ''\"3c70\"'', EtagCompressed = ''\"677a\"'',
     Compressed = True, PushList = []\<rparr>"

definition warm_cache :: AssetCache where
  "warm_cache = fs_cache\<lparr>Cache := [(''/srv/www/index.html'', index_asset)]\<rparr>"

definition two_cache :: AssetCache where
  "two_cache = fs_cache\<lparr>Cache := [(''/srv/www/index.html'', index_asset),
                                  (''/srv/www/a.css'', index_asset\<lparr>Loaded := 80\<rparr>)]\<rparr>"

text \<open>
  A second file system: beside the root \<open>/srv/www\<close>, the directory \<open>/srv\<close> holds the
  file \<open>x.css\<close>.  \<open>x_asset\<close> is the asset \<open>Gen\<close> builds of it at the instant 5, and
  \<open>x_cache\<close> the cache that holds it under the key \<open>Gen\<close> stores it with;
  \<open>x_cache2\<close> also has a younger entry under the path that \<open>PrepPath\<close> makes of that
  key.
\<close>

definition x_info :: FileInfo where
  "x_info = \<lparr>fi_Name = ''x.css'', fi_IsDir = False, fi_ModTime = 7\<rparr>"

definition x_env :: Env where
  "x_env = fs_env\<lparr>
     Stat := (\<lambda>p. if p = ''/srv/x.css'' then Inr x_info else Stat fs_env p),
     Open := (\<lambda>p. if p = ''/srv/x.css'' then Inr (bytes_NewReader ''p{}'') else Open fs_env p),
     ReadFile := (\<lambda>p. if p = ''/srv/x.css'' then Inr ''p{}'' else ReadFile fs_env p)\<rparr>"

definition x_asset :: Asset where
  "x_asset = \<lparr>Ext = ''.css'', Name = ''x.css'', ContentType = [], Loaded = 5, ModTime = 7,
     Content = ''p{}'', ContentCompressed = Some ''gz9:p{}'',
     CacheControl = ''private, must-revalidate'',
     Etag = ''\"707b\"'', EtagCompressed = ''\"677a\"'',
     Compressed = True, PushList = []\<rparr>"

definition x_cache :: AssetCache where
  "x_cache = fs_cache\<lparr>Cache := [(''/srv/x.css'', x_asset)]\<rparr>"

definition x_cache2 :: AssetCache where
  "x_cache2 = fs_cache\<lparr>Cache := [(''/srv/x.css'', x_asset),
                                 (''/srv/www/srv/x.css'', x_asset\<lparr>Loaded := 150\<rparr>)]\<rparr>"




section \<open>The serving engine (\<open>Ctx.WriteContent\<close>)\<close>

subsection \<open>Library helpers\<close>

text \<open>\<open>textproto.TrimString\<close>: ASCII space, tab, newline and return are cut from both ends.\<close>

definition isASCIISpace :: "char \<Rightarrow> bool" where
  "isASCIISpace b = (b = CHR '' '' \<or> b = CHR 0x09 \<or> b = CHR 0x0A \<or> b = CHR 0x0D)"

definition TrimString :: "string \<Rightarrow> string" where
  "TrimString s = rev (dropWhile isASCIISpace (rev (dropWhile isASCIISpace s)))"

text \<open>
  The runes for which \<open>unicode.IsSpace\<close> holds, each in its UTF-8 encoding: tab, line
  feed, vertical tab, form feed, carriage return and space; then \<open>U+0085\<close>,
  \<open>U+00A0\<close>, \<open>U+1680\<close>, \<open>U+2000\<close> to \<open>U+200A\<close>, \<open>U+2028\<close>, \<open>U+2029\<close>,
  \<open>U+202F\<close>, \<open>U+205F\<close> and \<open>U+3000\<close>.
\<close>

definition space_runes :: "string list" where
  "space_runes =
     [[CHR 0x09], [CHR 0x0A], [CHR 0x0B], [CHR 0x0C], [CHR 0x0D], [CHR 0x20],
      [CHR 0xC2, CHR 0x85], [CHR 0xC2, CHR 0xA0],
      [CHR 0xE1, CHR 0x9A, CHR 0x80],
      [CHR 0xE2, CHR 0x80, CHR 0x80], [CHR 0xE2, CHR 0x80, CHR 0x81],
      [CHR 0xE2, CHR 0x80, CHR 0x82], [CHR 0xE2, CHR 0x80, CHR 0x83],
      [CHR 0xE2, CHR 0x80, CHR 0x84], [CHR 0xE2, CHR 0x80, CHR 0x85],
      [CHR 0xE2, CHR 0x80, CHR 0x86], [CHR 0xE2, CHR 0x80, CHR 0x87],
      [CHR 0xE2, CHR 0x80, CHR 0x88], [CHR 0xE2, CHR 0x80, CHR 0x89],
      [CHR 0xE2, CHR 0x80, CHR 0x8A],
      [CHR 0xE2, CHR 0x80, CHR 0xA8], [CHR 0xE2, CHR 0x80, CHR 0xA9],
      [CHR 0xE2, CHR 0x80, CHR 0xAF],
      [CHR 0xE2, CHR 0x81, CHR 0x9F],
      [CHR 0xE3, CHR 0x80, CHR 0x80]]"

text \<open>
  The number of bytes of the white-space rune that the string begins with, \<open>0\<close> when
  it begins with none.  No encoding on the list is a prefix of another, so at most one
  of them fits.
\<close>

definition leadingSpace :: "string list \<Rightarrow> string \<Rightarrow> nat" where
  "leadingSpace runes s = (case find (HasPrefix s) runes of None \<Rightarrow> 0 | Some r \<Rightarrow> length r)"

text \<open>White-space runes are cut from the front for as long as the string begins with one.\<close>

function dropSpace :: "string list \<Rightarrow> string \<Rightarrow> string" where
  "dropSpace runes s =
     (if s = [] \<or> leadingSpace runes s = 0 then s
      else dropSpace runes (drop (leadingSpace runes s) s))"
  by pat_completeness auto
termination
  by (relation "measure (\<lambda>(runes, s). length s)") auto

declare dropSpace.simps [simp del]

text \<open>
  \<open>strings.TrimSpace\<close>: the white-space runes at the front and those at the back are
  cut.  At the back the library decodes the last rune by stepping back to the byte that
  starts it, which for the encodings above is to test whether the string ends in one
  of them.
\<close>

definition TrimSpace :: "string \<Rightarrow> string" where
  "TrimSpace s = rev (dropSpace (map rev space_runes) (rev (dropSpace space_runes s)))"

text \<open>\<open>strings.TrimPrefix\<close>\<close>

definition TrimPrefix :: "string \<Rightarrow> string \<Rightarrow> string" where
  "TrimPrefix s pre = (if HasPrefix s pre then drop (length pre) s else s)"

text \<open>\<open>strings.Index\<close> for a one-byte needle; \<open>None\<close> stands for \<open>-1\<close>.\<close>

fun strings_Index :: "string \<Rightarrow> char \<Rightarrow> nat option" where
  "strings_Index [] b = None"
| "strings_Index (c # cs) b = (if c = b then Some 0 else map_option Suc (strings_Index cs b))"

text \<open>Signed 64-bit arithmetic: the value an \<open>int64\<close> holds after an operation that may wrap.\<close>

definition i64 :: "int \<Rightarrow> int" where
  "i64 x = (x + 2 ^ 63) mod 2 ^ 64 - 2 ^ 63"

definition digit_val :: "char \<Rightarrow> int option" where
  "digit_val c = map_of (zip ''0123456789'' [0, 1, 2, 3, 4, 5, 6, 7, 8, 9]) c"

fun digits_val :: "string \<Rightarrow> int \<Rightarrow> int option" where
  "digits_val [] acc = Some acc"
| "digits_val (c # cs) acc =
     (case digit_val c of None \<Rightarrow> None | Some d \<Rightarrow> digits_val cs (acc * 10 + d))"

text \<open>
  \<open>strconv.ParseInt(s, 10, 64)\<close>, with \<open>None\<close> for every error: an optional sign, at
  least one digit, nothing else, and a value that fits an \<open>int64\<close>.
\<close>

definition ParseInt :: "string \<Rightarrow> int option" where
  "ParseInt s =
     (case s of
        [] \<Rightarrow> None
      | c # cs \<Rightarrow>
          (let neg = (c = CHR ''-'');
               ds = (if c = CHR ''+'' \<or> c = CHR ''-'' then cs else s)
           in if ds = [] then None
              else (case digits_val ds 0 of
                      None \<Rightarrow> None
                    | Some un \<Rightarrow>
                        if \<not> neg \<and> un \<ge> 2 ^ 63 then None
                        else if neg \<and> un > 2 ^ 63 then None
                        else Some (if neg then - un else un))))"

text \<open>\<open>strconv.FormatInt(n, 10)\<close> and the verb \<open>%d\<close>.\<close>

definition digit_char :: "nat \<Rightarrow> char" where
  "digit_char n = ''0123456789'' ! n"

function FormatNat :: "nat \<Rightarrow> string" where
  "FormatNat n = (if n < 10 then [digit_char n] else FormatNat (n div 10) @ [digit_char (n mod 10)])"
  by pat_completeness auto
termination
  by (relation "measure id") auto

declare FormatNat.simps [simp del]

definition FormatInt :: "int \<Rightarrow> string" where
  "FormatInt n = (if n < 0 then CHR ''-'' # FormatNat (nat (- n)) else FormatNat (nat n))"

subsection \<open>ETags\<close>

definition DQ :: char where
  "DQ = CHR 0x22"

text \<open>The bytes allowed inside an ETag: \<open>0x21\<close>, \<open>0x23\<close> to \<open>0x7E\<close>, and \<open>0x80\<close> upwards.\<close>

definition etagChar :: "char \<Rightarrow> bool" where
  "etagChar c = (let n = (of_char c :: nat) in n = 0x21 \<or> (0x23 \<le> n \<and> n \<le> 0x7E) \<or> n \<ge> 0x80)"

text \<open>
  The loop of \<open>scanETag\<close> after the opening quote: the tag text up to and including the
  closing quote, and the text after it; \<open>None\<close> when a byte is not allowed or the quote
  never closes.
\<close>

fun scanQuoted :: "string \<Rightarrow> (string \<times> string) option" where
  "scanQuoted [] = None"
| "scanQuoted (c # cs) =
     (if etagChar c then map_option (\<lambda>(t, r). (c # t, r)) (scanQuoted cs)
      else if c = DQ then Some ([c], cs)
      else None)"

definition scanETag :: "string \<Rightarrow> string \<times> string" where
  "scanETag s0 =
     (let s = TrimString s0;
          start = (if HasPrefix s ''W/'' then 2 else 0 :: nat)
      in if length (drop start s) < 2 \<or> s ! start \<noteq> DQ then ([], [])
         else (case scanQuoted (drop (start + 1) s) of
                 None \<Rightarrow> ([], [])
               | Some (t, r) \<Rightarrow> (take (start + 1) s @ t, r)))"

definition eTagStrongMatch :: "string \<Rightarrow> string \<Rightarrow> bool" where
  "eTagStrongMatch a b = (a = b \<and> a \<noteq> [] \<and> hd a = DQ)"

definition eTagWeakMatch :: "string \<Rightarrow> string \<Rightarrow> bool" where
  "eTagWeakMatch a b = (TrimPrefix a ''W/'' = TrimPrefix b ''W/'')"

lemma length_TrimString: "length (TrimString s) \<le> length s"
proof -
  have "length (TrimString s) \<le> length (dropWhile isASCIISpace s)"
    unfolding TrimString_def by (metis length_dropWhile_le length_rev)
  also have "\<dots> \<le> length s" by (rule length_dropWhile_le)
  finally show ?thesis .
qed

lemma scanQuoted_shorter: "scanQuoted s = Some (t, r) \<Longrightarrow> length r < length s"
  by (induction s arbitrary: t r) (auto split: if_splits)

lemma scanETag_shorter:
  assumes "fst (scanETag s) \<noteq> []"
  shows "length (snd (scanETag s)) < length s"
proof -
  let ?s = "TrimString s"
  let ?start = "if HasPrefix ?s ''W/'' then 2 else 0 :: nat"
  from assms obtain t r where q: "scanQuoted (drop (?start + 1) ?s) = Some (t, r)"
    and r: "snd (scanETag s) = r"
    by (auto simp: scanETag_def Let_def split: if_splits option.splits)
  from scanQuoted_shorter[OF q] have "length r < length ?s" by simp
  with length_TrimString[of s] r show ?thesis by simp
qed

subsection \<open>The context\<close>

text \<open>
  In this section instants are whole seconds, as HTTP dates are, and \<open>0\<close> is the zero
  \<open>time.Time\<close>, which \<open>http.ParseTime\<close> also returns with an error.
\<close>

record Err =
  Code :: int
  Value :: string

definition ErrBadRange :: Err where
  "ErrBadRange = \<lparr>Code = 416, Value = ''unsatisfiable range''\<rparr>"

definition ErrPreConditionFail :: Err where
  "ErrPreConditionFail = \<lparr>Code = 412, Value = ''precondition failed''\<rparr>"

text \<open>The errors \<open>WriteContent\<close> returns: one of the package, or the one of a failed \<open>Seek\<close>.\<close>

datatype werror = MakErr Err | SeekErr

record httpRange =
  start :: int
  length' :: int

text \<open>
  An \<open>io.ReadSeeker\<close>: its bytes, the position it is at when it is handed over, and
  whether \<open>Seek\<close> fails on it.
\<close>

record ReadSeeker =
  rs_data :: string
  rs_pos :: nat
  rs_seek_fails :: bool

text \<open>
  The variable \<open>reader\<close>: nil, the content itself, or the read end of the pipe that the
  multipart writer feeds.
\<close>

datatype reader = NilReader | ContentReader | PipeReader

text \<open>
  \<open>Ctx\<close>.  The response writer \<open>W\<close> is its header map together with what has been sent
  through it: the status given to \<open>WriteHeader\<close> and the bytes \<open>io.CopyN\<close> copied into
  it (\<open>None\<close> while nothing was copied).
\<close>

record Ctx =
  R :: Request
  W_Header :: Header
  W_Status :: "int option"
  W_Body :: "string option"
  ContentLength :: int
  Written :: bool
  Status :: int

text \<open>
  What the engine takes from libraries: \<open>http.ParseTime\<close>, \<open>http.DetectContentType\<close>,
  the boundary of a fresh multipart writer, and the number of bytes the multipart
  framing of the given parts takes (what the counting writer has seen).
\<close>

record HttpEnv =
  ParseTime :: "string \<Rightarrow> Time"
  DetectContentType :: "string \<Rightarrow> string"
  Boundary :: string
  multipart_framing :: "string \<Rightarrow> int \<Rightarrow> httpRange list \<Rightarrow> int"

text \<open>\<open>c.Header\<close> reads the request; \<open>c.GetHeader\<close>, \<open>c.SetHeader\<close> and \<open>c.DelHeader\<close> work on the response.\<close>

definition c_Header :: "Ctx \<Rightarrow> string \<Rightarrow> string" where
  "c_Header c name = Header_Get (ReqHeader (R c)) name"

definition c_GetHeader :: "Ctx \<Rightarrow> string \<Rightarrow> string" where
  "c_GetHeader c name = Header_Get (W_Header c) name"

definition c_SetHeader :: "Ctx \<Rightarrow> string \<Rightarrow> string \<Rightarrow> Ctx" where
  "c_SetHeader c name v = c\<lparr>W_Header := Header_Set (W_Header c) name v\<rparr>"

definition c_DelHeader :: "Ctx \<Rightarrow> string \<Rightarrow> Ctx" where
  "c_DelHeader c name = c\<lparr>W_Header := Header_Del (W_Header c) name\<rparr>"

text \<open>\<open>Err.Envoy\<close>: the status becomes the code of the error, which is returned.\<close>

definition Envoy :: "Err \<Rightarrow> Ctx \<Rightarrow> Ctx \<times> (werror, unit) outcome" where
  "Envoy err c = (c\<lparr>Status := Code err\<rparr>, Error (MakErr err))"

text \<open>\<open>httpRange.contentRange\<close>\<close>

definition contentRange :: "httpRange \<Rightarrow> int \<Rightarrow> string" where
  "contentRange r sz =
     ''bytes '' @ FormatInt (start r) @ ''-'' @ FormatInt (i64 (start r + length' r - 1)) @
     ''/'' @ FormatInt sz"

subsection \<open>The two header loops\<close>

text \<open>
  The loop over \<open>If-Match\<close>; the result is \<open>matched\<close>.  It ends at the first \<open>*\<close>, at
  the first tag that matches strongly, at the end of the text, or at text that is not
  a tag.
\<close>

function ifMatchLoop :: "string \<Rightarrow> string \<Rightarrow> bool" where
  "ifMatchLoop im et =
     (if TrimString im = [] then False
      else if hd (TrimString im) = CHR '','' then ifMatchLoop (tl (TrimString im)) et
      else if hd (TrimString im) = CHR ''*'' then True
      else if fst (scanETag (TrimString im)) = [] then False
      else if eTagStrongMatch (fst (scanETag (TrimString im))) et then True
      else ifMatchLoop (snd (scanETag (TrimString im))) et)"
  by pat_completeness auto
termination
proof (relation "measure (\<lambda>(im, et). length im)")
  show "wf (measure (\<lambda>(im, et). length im))" by simp
next
  fix im et :: string
  assume "TrimString im \<noteq> []"
  then have "length (tl (TrimString im)) < length (TrimString im)" by (cases "TrimString im") auto
  with length_TrimString[of im]
  show "((tl (TrimString im), et), (im, et)) \<in> measure (\<lambda>(im, et). length im)" by simp
next
  fix im et :: string
  assume "fst (scanETag (TrimString im)) \<noteq> []"
  from scanETag_shorter[OF this] length_TrimString[of im]
  show "((snd (scanETag (TrimString im)), et), (im, et)) \<in> measure (\<lambda>(im, et). length im)" by simp
qed

declare ifMatchLoop.simps [simp del]

text \<open>
  The comma step of the loop over \<open>If-None-Match\<close>: a leading comma is cut, and the
  loop goes on in the same round.
\<close>

definition skipComma :: "string \<Rightarrow> string" where
  "skipComma inm = (if hd inm = CHR '','' then tl inm else inm)"

text \<open>
  The loop over \<open>If-None-Match\<close>; the result is \<open>noneMatched\<close>.  After a comma has been
  cut the byte \<open>inm[0]\<close> is read without a test for the empty string, so a text that
  ends in a comma ends the loop with a panic, which is the result \<open>None\<close>.
\<close>

function ifNoneMatchLoop :: "string \<Rightarrow> string \<Rightarrow> bool option" where
  "ifNoneMatchLoop inm et =
     (if TrimString inm = [] then Some True
      else if skipComma (TrimString inm) = [] then None
      else if hd (skipComma (TrimString inm)) = CHR ''*'' then Some False
      else if fst (scanETag (skipComma (TrimString inm))) = [] then Some True
      else if eTagWeakMatch (fst (scanETag (skipComma (TrimString inm)))) et then Some False
      else ifNoneMatchLoop (snd (scanETag (skipComma (TrimString inm)))) et)"
  by pat_completeness auto
termination
proof (relation "measure (\<lambda>(inm, et). length inm)")
  show "wf (measure (\<lambda>(inm, et). length inm))" by simp
next
  fix inm et :: string
  assume "fst (scanETag (skipComma (TrimString inm))) \<noteq> []"
  from scanETag_shorter[OF this]
  have "length (snd (scanETag (skipComma (TrimString inm)))) < length (skipComma (TrimString inm))" .
  also have "\<dots> \<le> length (TrimString inm)" by (simp add: skipComma_def)
  also have "\<dots> \<le> length inm" by (rule length_TrimString)
  finally show "((snd (scanETag (skipComma (TrimString inm))), et), (inm, et))
                  \<in> measure (\<lambda>(inm, et). length inm)" by simp
qed

declare ifNoneMatchLoop.simps [simp del]


subsection \<open>The Range header\<close>

text \<open>
  The loop over the comma-separated pieces of the header after \<open>bytes=\<close>.  Its state is
  the list \<open>ranges\<close> and the flag \<open>noOverlap\<close>; \<open>None\<close> is the return of
  \<open>ErrBadRange\<close> from inside the loop.
\<close>

fun rangeLoop :: "int \<Rightarrow> string list \<Rightarrow> httpRange list \<Rightarrow> bool \<Rightarrow> (httpRange list \<times> bool) option" where
  "rangeLoop sz [] ranges noOverlap = Some (ranges, noOverlap)"
| "rangeLoop sz (ra0 # ras) ranges noOverlap =
     (let ra = TrimSpace ra0 in
      if ra = [] then rangeLoop sz ras ranges noOverlap
      else
        (case strings_Index ra CHR ''-'' of
           None \<Rightarrow> None
         | Some i \<Rightarrow>
             (let start_s = TrimSpace (take i ra);
                  end_s = TrimSpace (drop (i + 1) ra)
              in if start_s = [] then
                   (case ParseInt end_s of
                      None \<Rightarrow> None
                    | Some n \<Rightarrow>
                        (let n' = (if n > sz then sz else n);
                             st = i64 (sz - n')
                         in rangeLoop sz ras
                              (ranges @ [\<lparr>start = st, length' = i64 (sz - st)\<rparr>]) noOverlap))
                 else
                   (case ParseInt start_s of
                      None \<Rightarrow> None
                    | Some n \<Rightarrow>
                        if n < 0 then None
                        else if n \<ge> sz then rangeLoop sz ras ranges True
                        else if end_s = [] then
                          rangeLoop sz ras (ranges @ [\<lparr>start = n, length' = sz - n\<rparr>]) noOverlap
                        else
                          (case ParseInt end_s of
                             None \<Rightarrow> None
                           | Some e \<Rightarrow>
                               if n > e then None
                               else
                                 (let e' = (if e \<ge> sz then sz - 1 else e)
                                  in rangeLoop sz ras
                                       (ranges @ [\<lparr>start = n, length' = e' - n + 1\<rparr>])
                                       noOverlap))))))"

text \<open>The sum \<open>rangesSize\<close>, an \<open>int64\<close>, started from \<open>init\<close>.\<close>

definition sumLengths :: "int \<Rightarrow> httpRange list \<Rightarrow> int" where
  "sumLengths init ranges = foldl (\<lambda>acc ra. i64 (acc + length' ra)) init ranges"

subsection \<open>The deferred writer\<close>

text \<open>The size \<open>content.Seek(0, io.SeekEnd)\<close> yields, taken as \<open>0\<close> when the call fails.\<close>

definition seekEnd :: "ReadSeeker option \<Rightarrow> int" where
  "seekEnd content =
     (case content of
        None \<Rightarrow> 0
      | Some cnt \<Rightarrow> if rs_seek_fails cnt then 0 else int (length (rs_data cnt)))"

text \<open>
  \<open>io.CopyN(c.W, reader, n)\<close>: at most \<open>n\<close> bytes from the position of the content.
  The read end of the pipe has been closed by then (\<open>defer pr.Close()\<close> is registered
  after the writer and so runs before it), and yields nothing.
\<close>

definition copyN :: "reader \<Rightarrow> ReadSeeker option \<Rightarrow> int \<Rightarrow> int \<Rightarrow> string" where
  "copyN rd content pos n =
     (case rd of
        ContentReader \<Rightarrow>
          (case content of
             None \<Rightarrow> []
           | Some cnt \<Rightarrow> take (nat n) (drop (nat pos) (rs_data cnt)))
      | _ \<Rightarrow> [])"

text \<open>
  The deferred function of \<open>WriteContent\<close> when \<open>canWrite\<close> is set; when it is not
  set the function does nothing.  \<open>rd\<close> is the variable \<open>reader\<close> and \<open>pos\<close> the
  position the content was left at.  Its statements, in order:
\<close>

text \<open>the \<open>Strict-Transport-Security\<close> header on a TLS connection;\<close>

definition setHSTS :: "Ctx \<Rightarrow> Ctx" where
  "setHSTS c =
     (if TLS (R c) \<and> c_GetHeader c ''Strict-Transport-Security'' = []
      then c_SetHeader c ''Strict-Transport-Security'' ''max-age=31536000'' else c)"

text \<open>
  the \<open>Accept-Ranges\<close> header of a 2xx response with a reader (the test reads the
  header of the request);
\<close>

definition setAcceptRanges :: "Ctx \<Rightarrow> reader \<Rightarrow> Ctx" where
  "setAcceptRanges c rd =
     (if rd \<noteq> NilReader \<and> Status c \<ge> 200 \<and> Status c < 300 \<and> c_Header c ''Accept-Ranges'' = []
      then c_SetHeader c ''Accept-Ranges'' ''bytes'' else c)"

text \<open>the content length 0 replaced by the size of the content, which is rewound;\<close>

definition rewinds :: "Ctx \<Rightarrow> reader \<Rightarrow> bool" where
  "rewinds c rd = (rd = ContentReader \<and> ContentLength c = 0)"

definition measureContent :: "Ctx \<Rightarrow> ReadSeeker option \<Rightarrow> reader \<Rightarrow> Ctx" where
  "measureContent c content rd =
     (if rewinds c rd then c\<lparr>ContentLength := seekEnd content\<rparr> else c)"

text \<open>the \<open>Content-Length\<close> header, or else the content length 0;\<close>

definition setContentLength :: "Ctx \<Rightarrow> Ctx" where
  "setContentLength c =
     (if ContentLength c \<ge> 0 \<and>
         c_GetHeader c ''Content-Length'' = [] \<and>
         c_GetHeader c ''Transfer-Encoding'' = [] \<and>
         Status c \<ge> 200 \<and> Status c \<noteq> 204 \<and>
         (Status c \<ge> 300 \<or> Method (R c) \<noteq> ''CONNECT'')
      then c_SetHeader c ''Content-Length'' (FormatInt (ContentLength c))
      else c\<lparr>ContentLength := 0\<rparr>)"

text \<open>the status line, the body unless the method is HEAD, and the flag \<open>Written\<close>.\<close>

definition writeOut :: "Ctx \<Rightarrow> ReadSeeker option \<Rightarrow> reader \<Rightarrow> int \<Rightarrow> Ctx" where
  "writeOut c content rd pos =
     (if Method (R c) \<noteq> ''HEAD'' \<and> rd \<noteq> NilReader
      then c\<lparr>W_Status := Some (Status c),
             W_Body := Some (copyN rd content pos (ContentLength c)),
             Written := True\<rparr>
      else c\<lparr>W_Status := Some (Status c), Written := True\<rparr>)"

definition finish :: "Ctx \<Rightarrow> ReadSeeker option \<Rightarrow> reader \<Rightarrow> int \<Rightarrow> Ctx" where
  "finish c content rd pos =
     writeOut
       (setContentLength (measureContent (setAcceptRanges (setHSTS c) rd) content rd))
       content rd
       (if rewinds (setAcceptRanges (setHSTS c) rd) rd then 0 else pos)"

subsection \<open>The steps of \<open>WriteContent\<close>\<close>

text \<open>\<open>If-Match\<close>, else \<open>If-Unmodified-Since\<close>: the status may become 412.\<close>

definition preconditionStep :: "HttpEnv \<Rightarrow> Ctx \<Rightarrow> Ctx" where
  "preconditionStep env c =
     (let im = c_Header c ''If-Match'';
          et = c_GetHeader c ''Etag'';
          ius = ParseTime env (c_Header c ''If-Unmodified-Since'');
          lm = ParseTime env (c_GetHeader c ''Last-Modified'')
      in if im \<noteq> [] then (if \<not> ifMatchLoop im et then c\<lparr>Status := 412\<rparr> else c)
         else if ius \<noteq> 0 \<and> \<not> lm < ius + 1 then c\<lparr>Status := 412\<rparr>
         else c)"

text \<open>
  \<open>If-None-Match\<close>, else \<open>If-Modified-Since\<close>: the status may become 304 or 412;
  \<open>None\<close> is the panic of the loop.
\<close>

definition conditionalStep :: "HttpEnv \<Rightarrow> Ctx \<Rightarrow> Ctx option" where
  "conditionalStep env c =
     (let inm = c_Header c ''If-None-Match'';
          ims = ParseTime env (c_Header c ''If-Modified-Since'');
          lm = ParseTime env (c_GetHeader c ''Last-Modified'')
      in if inm \<noteq> [] then
           (case ifNoneMatchLoop inm (c_GetHeader c ''Etag'') of
              None \<Rightarrow> None
            | Some noneMatched \<Rightarrow>
                Some (if \<not> noneMatched then
                        (if Method (R c) = ''GET'' \<or> Method (R c) = ''HEAD''
                         then c\<lparr>Status := 304\<rparr> else c\<lparr>Status := 412\<rparr>)
                      else c))
         else if ims \<noteq> 0 \<and> lm < ims + 1 then Some (c\<lparr>Status := 304\<rparr>)
         else Some c)"

text \<open>
  The \<open>If-Range\<close> guard of a GET or HEAD request: whether it makes the engine leave the
  \<open>Range\<close> header aside and write the whole content.
\<close>

definition ifRangeSkips :: "HttpEnv \<Rightarrow> Ctx \<Rightarrow> bool" where
  "ifRangeSkips env c =
     (let et = c_GetHeader c ''Etag'';
          lm = ParseTime env (c_GetHeader c ''Last-Modified'');
          ir = c_Header c ''If-Range''
      in (Method (R c) = ''GET'' \<or> Method (R c) = ''HEAD'') \<and> ir \<noteq> [] \<and>
         ((fst (scanETag ir) \<noteq> [] \<and> \<not> eTagStrongMatch (fst (scanETag ir)) et) \<or>
          lm = 0 \<or> ParseTime env ir \<noteq> lm))"

text \<open>
  From the test of the prefix \<open>bytes=\<close> to the end of the function.  \<open>Seek\<close> to the
  start of a single range fails on a seeker that fails and on a negative offset.
\<close>

definition rangeStep :: "HttpEnv \<Rightarrow> Ctx \<Rightarrow> ReadSeeker \<Rightarrow> string \<Rightarrow> int \<Rightarrow> string \<Rightarrow> Ctx \<times> (werror, unit) outcome" where
  "rangeStep env c cnt ct sz rh =
     (if \<not> HasPrefix rh ''bytes='' then Envoy ErrBadRange c
      else
        (case rangeLoop sz (Split (drop 6 rh) CHR '','') [] False of
           None \<Rightarrow> Envoy ErrBadRange c
         | Some (ranges0, noOverlap) \<Rightarrow>
             if noOverlap \<and> length ranges0 = 0 then
               Envoy ErrBadRange (c_SetHeader c ''Content-Range'' (''bytes */'' @ FormatInt sz))
             else
               (let rangesSize = sumLengths 0 ranges0;
                    ranges = (if rangesSize > sz then [] else ranges0)
                in if length ranges = 1 then
                     (let ra = hd ranges in
                      if rs_seek_fails cnt \<or> start ra < 0 then (c\<lparr>Status := 416\<rparr>, Error SeekErr)
                      else
                        (finish
                           (c_SetHeader (c\<lparr>ContentLength := length' ra, Status := 206\<rparr>)
                              ''Content-Range'' (contentRange ra sz))
                           (Some cnt) ContentReader (start ra),
                         Ok ()))
                   else if length ranges > 1 then
                     (let cl = i64 (sumLengths (ContentLength c) ranges +
                                    multipart_framing env ct sz ranges);
                          c' = c_SetHeader (c\<lparr>ContentLength := cl, Status := 206\<rparr>) ''Content-Type''
                                 (''multipart/byteranges; boundary='' @ Boundary env)
                      in (finish c' (Some cnt) PipeReader 0, Ok ()))
                   else (finish c (Some cnt) ContentReader 0, Ok ()))))"

text \<open>
  From the look at \<open>Content-Type\<close> to the test of the \<open>Range\<close> header: the type is
  detected from the first 512 bytes when it is not set, and the size is found by seeking.
\<close>

definition contentStep :: "HttpEnv \<Rightarrow> Ctx \<Rightarrow> ReadSeeker \<Rightarrow> Ctx \<times> (werror, unit) outcome" where
  "contentStep env c cnt =
     (let ct0 = c_GetHeader c ''Content-Type'' in
      if ct0 = [] \<and> rs_seek_fails cnt then (c, Error SeekErr)
      else
        (let ct = (if ct0 = [] then DetectContentType env (take 512 (drop (rs_pos cnt) (rs_data cnt)))
                   else ct0);
             c1 = (if ct0 = [] then c_SetHeader c ''Content-Type'' ct else c)
         in if rs_seek_fails cnt then (c1, Error SeekErr)
            else
              (let sz = int (length (rs_data cnt));
                   c2 = c1\<lparr>ContentLength := sz\<rparr>;
                   rh = c_Header c2 ''Range''
               in if rh = [] then (finish c2 (Some cnt) ContentReader 0, Ok ())
                  else if ifRangeSkips env c2 then (finish c2 (Some cnt) ContentReader 0, Ok ())
                  else rangeStep env c2 cnt ct sz rh)))"

text \<open>
  \<open>WriteContent\<close>: the context it leaves, and how the call ends.  Where an error or a
  panic ends the call, \<open>canWrite\<close> is not set and nothing is written.
\<close>

definition WriteContent :: "HttpEnv \<Rightarrow> Ctx \<Rightarrow> ReadSeeker option \<Rightarrow> Ctx \<times> (werror, unit) outcome" where
  "WriteContent env c content =
     (let rd = (case content of None \<Rightarrow> NilReader | Some cnt \<Rightarrow> ContentReader);
          pos = (case content of None \<Rightarrow> 0 | Some cnt \<Rightarrow> int (rs_pos cnt))
      in
      if Written c then (c, Ok ())
      else if Status c \<ge> 400 then (finish c content rd pos, Ok ())
      else
        (case conditionalStep env (preconditionStep env c) of
           None \<Rightarrow> (preconditionStep env c, Panic)
         | Some c2 \<Rightarrow>
             if Status c2 \<ge> 300 \<and> Status c2 < 400 then
               (finish (if Status c2 = 304
                        then c_DelHeader (c_DelHeader c2 ''Content-Type'') ''Content-Length''
                        else c2) content rd pos,
                Ok ())
             else if Status c2 = 412 then (c2, Error (MakErr ErrPreConditionFail))
             else
               (case content of
                  None \<Rightarrow> (finish c2 None NilReader 0, Ok ())
                | Some cnt \<Rightarrow> contentStep env c2 cnt)))"



subsection \<open>Notions used to state the results\<close>

text \<open>
  A request passes the conditional steps when both leave the context as it is: no
  precondition fails and nothing is found unmodified.
\<close>

definition passesConditions :: "HttpEnv \<Rightarrow> Ctx \<Rightarrow> bool" where
  "passesConditions env c = (conditionalStep env (preconditionStep env c) = Some c)"

text \<open>
  The call reaches the parsing of the \<open>Range\<close> header: nothing is written yet, the
  status is below 300 and stays so through the conditional steps, the content can be
  sought, a \<open>Range\<close> header is there and no \<open>If-Range\<close> guard sets it aside.
\<close>

definition reachesRange :: "HttpEnv \<Rightarrow> Ctx \<Rightarrow> ReadSeeker \<Rightarrow> bool" where
  "reachesRange env c cnt =
     (\<not> Written c \<and> Status c < 300 \<and> passesConditions env c \<and> \<not> rs_seek_fails cnt \<and>
      c_Header c ''Range'' \<noteq> [] \<and> \<not> ifRangeSkips env c)"

text \<open>
  The context at the point where the \<open>Range\<close> header is read: the content type is set
  and the content length is the size.
\<close>

definition sized :: "HttpEnv \<Rightarrow> Ctx \<Rightarrow> ReadSeeker \<Rightarrow> Ctx" where
  "sized env c cnt =
     (if c_GetHeader c ''Content-Type'' = []
      then c_SetHeader c ''Content-Type''
             (DetectContentType env (take 512 (drop (rs_pos cnt) (rs_data cnt))))
      else c)\<lparr>ContentLength := int (length (rs_data cnt))\<rparr>"


subsection \<open>A context and requests, for concrete runs\<close>

text \<open>
  A context as \<open>Instance.ServeHTTP\<close> creates it for a request without a body: status
  200, content length 0, nothing written.
\<close>

definition fresh_ctx :: "Request \<Rightarrow> Header \<Rightarrow> Ctx" where
  "fresh_ctx req h = \<lparr>R = req, W_Header = h, W_Status = None, W_Body = None,
     ContentLength = 0, Written = False, Status = 200\<rparr>"

definition request :: "string \<Rightarrow> (string \<times> string) list \<Rightarrow> Request" where
  "request m hs = \<lparr>Method = m,
     ReqHeader = (\<lambda>k. case map_of hs k of None \<Rightarrow> [] | Some v \<Rightarrow> [v]), TLS = False\<rparr>"

definition header :: "(string \<times> string) list \<Rightarrow> Header" where
  "header hs = (\<lambda>k. case map_of hs k of None \<Rightarrow> [] | Some v \<Rightarrow> [v])"

text \<open>
  The date below is the only text the stand-in for \<open>http.ParseTime\<close> reads as a date;
  its value is that instant in seconds after the zero time.
\<close>

definition http_env :: HttpEnv where
  "http_env = \<lparr>
     ParseTime = (\<lambda>s. if s = ''Thu, 01 Jan 2015 00:00:00 GMT'' then 63555667200 else 0),
     DetectContentType = (\<lambda>b. ''text/plain; charset=utf-8''),
     Boundary = ''b0'',
     multipart_framing = (\<lambda>ct sz ranges. 0)\<rparr>"

definition hello :: ReadSeeker where
  "hello = \<lparr>rs_data = ''hello'', rs_pos = 0, rs_seek_fails = False\<rparr>"

definition plain_header :: Header where
  "plain_header = header [(''Content-Type'', ''text/plain''), (''Etag'', ''\"abc\"''),
                          (''Last-Modified'', ''Thu, 01 Jan 2015 00:00:00 GMT'')]"


definition c10_ctx :: Ctx where
  "c10_ctx = fresh_ctx (request ''GET'' [(''Range'', ''bytes=0-3, 1-4'')]) plain_header"

definition c4_ctx :: Ctx where
  "c4_ctx = fresh_ctx (request ''GET'' [(''If-Match'', ''\"x\"'')]) plain_header"

definition c4_both_ctx :: Ctx where
  "c4_both_ctx = fresh_ctx (request ''GET'' [(''If-Match'', ''\"x\"''),
                                            (''If-None-Match'', ''\"abc\"'')]) plain_header"

definition c5_ctx :: Ctx where
  "c5_ctx = fresh_ctx (request ''GET'' [(''If-None-Match'', ''\"abc\"'')]) plain_header"

definition c6_ctx :: Ctx where
  "c6_ctx = fresh_ctx (request ''GET'' [(''Range'', ''bytes=0-0''),
                                       (''If-Range'', ''\"abc\"'')]) plain_header"


definition c4_post_ctx :: Ctx where
  "c4_post_ctx = fresh_ctx (request ''POST'' [(''If-Match'', ''\"x\"''),
        (''If-Modified-Since'', ''Thu, 01 Jan 2015 00:00:00 GMT'')]) plain_header"


section \<open>Push-target extraction: results\<close>

lemma walk_example_tree: "walk ul AvoidPushing example_tree = [''/s.css'']"
  by (simp add: example_tree_def AvoidPushing_def visit_def attr_def ToLower_def isASCII_def
      toLower_char_def filepath_Ext_def IsAbs_def)

text \<open>
  C9.  For the example document, whose parse tree is \<open>example_tree\<close>, and the default
  skip list \<open>AvoidPushing\<close>, the extractor returns exactly the one-element list
  \<open>[''/s.css'']\<close>: the preload link and the \<open>.png\<close> image are left out.
\<close>

theorem C9_push_list:
  assumes "parse example_html = Inr example_tree"
  shows "queryPushables ul parse AvoidPushing example_html = Inr [''/s.css'']"
  using assms by (simp add: queryPushables_def walk_example_tree)

theorem C9_push_list_witness:
  "example_parser example_html = Inr example_tree \<and>
   queryPushables (\<lambda>s. s) example_parser AvoidPushing example_html = Inr [''/s.css'']"
  using C9_push_list [of example_parser "\<lambda>s. s"] by (simp add: example_parser_def)

section \<open>The asset cache: results\<close>

lemmas path_defs = PrepPath_def Clean_def Join_def HasPrefix_def filepath_Ext_def Let_def

lemma Clean_nonempty: "Clean p \<noteq> []"
  by (simp add: Clean_def Let_def)

lemma PrepPath_index_in_range:
  "(if \<not> HasPrefix (Clean file0) host then Join host (Clean file0) else Clean file0) \<noteq> []"
  by (simp add: Join_def Clean_nonempty)

text \<open>A cleaned path below the root that carries an extension is its own normal form.\<close>

lemma PrepPath_fixed:
  assumes "Clean k = k" and "HasPrefix k host" and "last k \<noteq> CHR ''/''" and "filepath_Ext k \<noteq> []"
  shows "PrepPath host k = k"
  using assms by (simp add: PrepPath_def Let_def)

subsection \<open>Unfolding \<open>Gen\<close> by what \<open>os.Stat\<close> answers\<close>

lemma Gen_stat_error:
  "Stat env (PrepPath (Dir a) n) = Inl e \<Longrightarrow> Gen env now a n = Some (Error e, a)"
  by (subst Gen.simps) (simp add: Let_def)

lemma Gen_file:
  "Stat env (PrepPath (Dir a) n) = Inr fs \<Longrightarrow> \<not> fi_IsDir fs \<Longrightarrow>
   Gen env now a n = Some (GenFile env now a (PrepPath (Dir a) n) fs)"
  by (subst Gen.simps) (simp add: Let_def)

lemma Gen_dir:
  "Stat env (PrepPath (Dir a) n) = Inr fs \<Longrightarrow> fi_IsDir fs \<Longrightarrow>
   Gen env now a n = Gen env now a (Join (PrepPath (Dir a) n) ''index.html'')"
  by (subst Gen.simps) (simp add: Let_def)

text \<open>Whatever \<open>Gen\<close> returns was returned by \<open>GenFile\<close>, or is the error of \<open>os.Stat\<close>.\<close>

lemma Gen_returns:
  assumes "Gen env now a name = Some y"
  shows "(\<exists>err. y = (Error err, a)) \<or> (\<exists>n fs. y = GenFile env now a n fs)"
proof (rule Gen.raw_induct[OF _ assms])
  fix G :: "Env \<Rightarrow> Time \<Rightarrow> AssetCache \<Rightarrow> string \<Rightarrow> ((os_error, Asset) outcome \<times> AssetCache) option"
  fix env now a name0 y
  assume IH: "\<And>e t c nm r. G e t c nm = Some r \<Longrightarrow>
                (\<exists>err. r = (Error err, c)) \<or> (\<exists>n fs. r = GenFile e t c n fs)"
  assume body: "(let name = PrepPath (Dir a) name0
      in case Stat env name of Inl err \<Rightarrow> Some (Error err, a)
         | Inr fs \<Rightarrow>
             if fi_IsDir fs then G env now a (Join name ''index.html'')
             else Some (GenFile env now a name fs)) = Some y"
  show "(\<exists>err. y = (Error err, a)) \<or> (\<exists>n fs. y = GenFile env now a n fs)"
  proof (cases "Stat env (PrepPath (Dir a) name0)")
    case (Inl e)
    with body show ?thesis by (auto simp: Let_def)
  next
    case (Inr fs)
    show ?thesis
    proof (cases "fi_IsDir fs")
      case True
      with Inr body have "G env now a (Join (PrepPath (Dir a) name0) ''index.html'') = Some y"
        by (simp add: Let_def)
      from IH[OF this] show ?thesis .
    next
      case False
      with Inr body have "GenFile env now a (PrepPath (Dir a) name0) fs = y"
        by (simp add: Let_def)
      then show ?thesis by blast
    qed
  qed
qed

lemma GenFile_error: "GenFile env now a name fs = (Error err, a') \<Longrightarrow> a' = a"
  by (auto simp: GenFile_def Let_def split: sum.splits if_splits option.splits)

subsection \<open>Concrete runs\<close>

lemma GenFile_index:
  "GenFile fs_env 5 fs_cache ''/srv/www/index.html'' index_info = (Ok index_asset, warm_cache)"
  by (simp add: GenFile_def fs_env_def fs_cache_def index_asset_def index_info_def warm_cache_def
      filepath_Ext_def StringsContainCI_def Compressable_def ToLower_def isASCII_def
      toLower_char_def hex_string_def hex_digit_def etag_Sprintf_def gzipBytes_def io_Copy_Sum_def bytes_NewReader_def queryPushables_def Let_def)

lemma Gen_index:
  "Gen fs_env 5 fs_cache ''/srv/www/index.html'' = Some (Ok index_asset, warm_cache)"
proof -
  have "PrepPath ''/srv/www'' ''/srv/www/index.html'' = ''/srv/www/index.html''"
    by (simp add: path_defs)
  then have "Gen fs_env 5 fs_cache ''/srv/www/index.html'' =
    Some (GenFile fs_env 5 fs_cache ''/srv/www/index.html'' index_info)"
    using Gen_file [of fs_env fs_cache "''/srv/www/index.html''" index_info 5]
    by (simp add: fs_cache_def fs_env_def index_info_def)
  then show ?thesis by (simp only: GenFile_index)
qed

lemma Gen_missing:
  "Gen fs_env 5 warm_cache ''/missing.css'' = Some (Error ErrNotExist, warm_cache)"
proof -
  have "PrepPath ''/srv/www'' ''/missing.css'' = ''/srv/www/missing.css''"
    by (simp add: path_defs)
  then show ?thesis
    using Gen_stat_error [of fs_env warm_cache "''/missing.css''" ErrNotExist 5]
    by (simp add: fs_cache_def fs_env_def warm_cache_def)
qed

text \<open>
  The path \<open>ServeHTTP\<close> takes for the request of \<open>/\<close>, namely \<open>Get\<close> of the field
  \<open>Index\<close>, does find the index file.
\<close>

lemma Get_Index_found:
  "Get fs_env 5 fs_cache (Index fs_cache) = Some (Ok (Some index_asset, True), warm_cache)"
proof -
  have "PrepPath ''/srv/www'' ''/srv/www/index.html'' = ''/srv/www/index.html''"
    by (simp add: path_defs)
  then show ?thesis
    using Gen_index by (simp add: Get_def fs_cache_def)
qed

text \<open>
  C8.  The cache is rooted at \<open>/srv/www\<close>, a directory that holds \<open>index.html\<close>.
  \<open>Get\<close> of \<open>/\<close> normalises the name to \<open>/srv/www.html\<close>, since the root has no
  extension; no such file exists, and \<open>Get\<close> answers \<open>nil\<close> with \<open>found = false\<close>,
  leaving the cache empty.
\<close>

theorem C8_Get_root_not_found:
  "PrepPath (Dir fs_cache) ''/'' = ''/srv/www.html'' \<and>
   Stat fs_env ''/srv/www/index.html'' = Inr index_info \<and>
   Get fs_env 5 fs_cache ''/'' = Some (Ok (None, False), fs_cache)"
proof -
  have p1: "PrepPath ''/srv/www'' ''/'' = ''/srv/www.html''"
    by (simp add: path_defs)
  have p2: "PrepPath ''/srv/www'' ''/srv/www.html'' = ''/srv/www.html''"
    by (simp add: path_defs)
  have "Gen fs_env 5 fs_cache ''/srv/www.html'' = Some (Error ErrNotExist, fs_cache)"
    using Gen_stat_error [of fs_env fs_cache "''/srv/www.html''" ErrNotExist 5]
    by (simp add: fs_cache_def fs_env_def p2)
  then have "Get fs_env 5 fs_cache ''/'' = Some (Ok (None, False), fs_cache)"
    by (simp add: Get_def p1 fs_cache_def)
  moreover have "Stat fs_env ''/srv/www/index.html'' = Inr index_info"
    by (simp add: fs_env_def)
  ultimately show ?thesis using p1 by (simp add: fs_cache_def)
qed

text \<open>
  C2.  Whenever \<open>Gen\<close> returns an error, whichever step failed, the cache it leaves is the
  cache it was given: the map holds the same entries with the same assets, and the
  watcher is unchanged.
\<close>

theorem C2_Gen_error_leaves_cache:
  assumes "Gen env now a name = Some (Error err, a')"
  shows "a' = a \<and> Cache a' = Cache a"
proof -
  from Gen_returns[OF assms]
  have "a' = a"
    by (auto dest: GenFile_error[OF sym])
  then show ?thesis by simp
qed

theorem C2_Gen_error_witness:
  "Gen fs_env 5 warm_cache ''/missing.css'' = Some (Error ErrNotExist, warm_cache) \<and>
   Cache warm_cache = [(''/srv/www/index.html'', index_asset)]"
  using C2_Gen_error_leaves_cache [OF Gen_missing] Gen_missing
  by (simp add: warm_cache_def)

subsection \<open>What a generated asset holds\<close>














subsection \<open>The expiry sweep\<close>

lemma Cache_Del [simp]: "Cache (Del a k) = AList.delete (PrepPath (Dir a) k) (Cache a)"
  by (simp add: Del_def Let_def split: option.splits)

lemma Dir_Del [simp]: "Dir (Del a k) = Dir a"
  by (simp add: Del_def Let_def split: option.splits)

lemma Expire_Del [simp]: "Expire (Del a k) = Expire a"
  by (simp add: Del_def Let_def split: option.splits)

text \<open>
  After the loop has run over the pairs \<open>kvs\<close>, a key is gone if the loop met it with an
  expired asset, and is otherwise as before, provided \<open>PrepPath\<close> leaves the keys of
  the pairs as they are.
\<close>

lemma sweep_Cache:
  assumes "\<forall>k \<in> fst ` set kvs. PrepPath (Dir a) k = k"
  shows "map_of (Cache (sweep a now kvs)) k =
         (if \<exists>v. (k, v) \<in> set kvs \<and> Loaded v + Expire a < now then None
          else map_of (Cache a) k)"
  using assms
proof (induction kvs arbitrary: a)
  case Nil
  then show ?case by simp
next
  case (Cons kv kvs)
  obtain k' v' where kv: "kv = (k', v')" by (cases kv)
  from Cons.prems kv have fixed: "PrepPath (Dir a) k' = k'" by simp
  from Cons.prems have rest: "\<forall>k \<in> fst ` set kvs. PrepPath (Dir a) k = k" by simp
  show ?case
  proof (cases "Loaded v' + Expire a < now")
    case True
    have "\<forall>k \<in> fst ` set kvs. PrepPath (Dir (Del a k')) k = k" using rest by simp
    from Cons.IH[OF this] True kv fixed show ?thesis
      by (auto simp: delete_conv')
  next
    case False
    from Cons.IH[OF rest] False kv show ?thesis by auto
  qed
qed

text \<open>
  Where the cache holds one asset per key and \<open>PrepPath\<close> leaves every key as it is,
  one tick removes a stored entry whose \<open>Loaded\<close> is older than \<open>now\<close> by more than
  \<open>Expire\<close>, and keeps any other entry with the same asset.
\<close>

lemma tick_normalised_keys:
  assumes "distinct (map fst (Cache a))"
    and "\<forall>k \<in> fst ` set (Cache a). PrepPath (Dir a) k = k"
    and "map_of (Cache a) k = Some v"
  shows "(now - Loaded v > Expire a \<longrightarrow> map_of (Cache (tick a now)) k = None) \<and>
         (now - Loaded v \<le> Expire a \<longrightarrow> map_of (Cache (tick a now)) k = Some v)"
proof -
  from assms(1,3) have "\<And>v'. (k, v') \<in> set (Cache a) \<longleftrightarrow> v' = v"
    by (metis map_of_SomeD map_of_is_SomeI option.inject)
  then have "(\<exists>v'. (k, v') \<in> set (Cache a) \<and> Loaded v' + Expire a < now) \<longleftrightarrow>
             Loaded v + Expire a < now"
    by auto
  with sweep_Cache[OF assms(2), of now k] assms(3) show ?thesis
    by (auto simp: tick_def)
qed

text \<open>Such a cache: the keys are paths below the root that carry an extension.\<close>

lemma tick_two_cache:
  "map_of (Cache (tick two_cache 150)) ''/srv/www/index.html'' = None \<and>
   map_of (Cache (tick two_cache 150)) ''/srv/www/a.css'' = Some (index_asset\<lparr>Loaded := 80\<rparr>)"
proof -
  have d: "distinct (map fst (Cache two_cache))"
    by (simp add: two_cache_def fs_cache_def)
  have p1: "PrepPath ''/srv/www'' ''/srv/www/index.html'' = ''/srv/www/index.html''"
    by (simp add: path_defs)
  have p2: "PrepPath ''/srv/www'' ''/srv/www/a.css'' = ''/srv/www/a.css''"
    by (simp add: path_defs)
  have f: "\<forall>k \<in> fst ` set (Cache two_cache). PrepPath (Dir two_cache) k = k"
    using p1 p2 by (simp add: two_cache_def fs_cache_def)
  have m1: "map_of (Cache two_cache) ''/srv/www/index.html'' = Some index_asset"
    by (simp add: two_cache_def fs_cache_def)
  have m2: "map_of (Cache two_cache) ''/srv/www/a.css'' = Some (index_asset\<lparr>Loaded := 80\<rparr>)"
    by (simp add: two_cache_def fs_cache_def)
  have e1: "150 - Loaded index_asset > Expire two_cache"
    by (simp add: two_cache_def fs_cache_def index_asset_def)
  have e2: "150 - Loaded (index_asset\<lparr>Loaded := 80\<rparr>) \<le> Expire two_cache"
    by (simp add: two_cache_def fs_cache_def)
  from tick_normalised_keys[OF d f m1, of 150] e1
  have r1: "map_of (Cache (tick two_cache 150)) ''/srv/www/index.html'' = None" by simp
  from tick_normalised_keys[OF d f m2, of 150] e2
  have r2: "map_of (Cache (tick two_cache 150)) ''/srv/www/a.css'' = Some (index_asset\<lparr>Loaded := 80\<rparr>)"
    by simp
  from r1 r2 show ?thesis by simp
qed

text \<open>The key \<open>Gen\<close> stores for the name \<open>../x.css\<close>, and what \<open>PrepPath\<close> makes of it.\<close>

lemma PrepPath_outside:
  "PrepPath ''/srv/www'' ''../x.css'' = ''/srv/x.css'' \<and>
   PrepPath ''/srv/www'' ''/srv/x.css'' = ''/srv/www/srv/x.css'' \<and>
   PrepPath ''/srv/www'' ''/srv/www/srv/x.css'' = ''/srv/www/srv/x.css''"
  by (simp add: path_defs)

lemma GenFile_x:
  "GenFile x_env 5 fs_cache ''/srv/x.css'' x_info = (Ok x_asset, x_cache)"
  by (simp add: GenFile_def x_env_def fs_env_def fs_cache_def x_asset_def x_info_def x_cache_def
      filepath_Ext_def StringsContainCI_def Compressable_def ToLower_def isASCII_def
      toLower_char_def hex_string_def hex_digit_def etag_Sprintf_def gzipBytes_def
      io_Copy_Sum_def bytes_NewReader_def Let_def)

lemma Gen_x: "Gen x_env 5 fs_cache ''../x.css'' = Some (Ok x_asset, x_cache)"
proof -
  have "Gen x_env 5 fs_cache ''../x.css'' =
        Some (GenFile x_env 5 fs_cache ''/srv/x.css'' x_info)"
    using Gen_file [of x_env fs_cache "''../x.css''" x_info 5] PrepPath_outside
    by (simp add: fs_cache_def x_env_def fs_env_def x_info_def)
  then show ?thesis by (simp only: GenFile_x)
qed

text \<open>
  C1.  The cache is rooted at \<open>/srv/www\<close> and keeps an entry for 100 units of time.  At
  the instant 5, \<open>Gen\<close> of the name \<open>../x.css\<close> stores the asset of the file
  \<open>/srv/x.css\<close> under that path.  A tick at the instant 200 finds the entry expired and
  hands its key to \<open>Del\<close>, which normalises it to \<open>/srv/www/srv/x.css\<close> and removes
  nothing: the expired entry is still stored after the tick.  Where the cache also holds
  an entry loaded at 150 under \<open>/srv/www/srv/x.css\<close>, the tick removes that one, which
  has not expired, and keeps the expired one.  On the cache \<open>two_cache\<close>, whose keys
  lie below the root, a tick at 150 removes the entry loaded at 5 and keeps the one
  loaded at 80.
\<close>

theorem C1_expired_entry_kept:
  "Gen x_env 5 fs_cache ''../x.css'' = Some (Ok x_asset, x_cache) \<and>
   Cache x_cache = [(''/srv/x.css'', x_asset)] \<and>
   Expire x_cache = 100 \<and> Loaded x_asset = 5 \<and>
   PrepPath (Dir x_cache) ''/srv/x.css'' = ''/srv/www/srv/x.css'' \<and>
   Cache (tick x_cache 200) = [(''/srv/x.css'', x_asset)] \<and>
   Cache x_cache2 = [(''/srv/x.css'', x_asset), (''/srv/www/srv/x.css'', x_asset\<lparr>Loaded := 150\<rparr>)] \<and>
   Cache (tick x_cache2 200) = [(''/srv/x.css'', x_asset)] \<and>
   Cache two_cache = [(''/srv/www/index.html'', index_asset),
                      (''/srv/www/a.css'', index_asset\<lparr>Loaded := 80\<rparr>)] \<and>
   Loaded index_asset = 5 \<and>
   Cache (tick two_cache 150) = [(''/srv/www/a.css'', index_asset\<lparr>Loaded := 80\<rparr>)]"
proof -
  have p: "PrepPath ''/srv/www'' ''/srv/www/index.html'' = ''/srv/www/index.html''"
    "PrepPath ''/srv/www'' ''/srv/www/a.css'' = ''/srv/www/a.css''"
    by (simp_all add: path_defs)
  have "Cache x_cache = [(''/srv/x.css'', x_asset)] \<and>
   Expire x_cache = 100 \<and> Loaded x_asset = 5 \<and>
   PrepPath (Dir x_cache) ''/srv/x.css'' = ''/srv/www/srv/x.css'' \<and>
   Cache (tick x_cache 200) = [(''/srv/x.css'', x_asset)] \<and>
   Cache x_cache2 = [(''/srv/x.css'', x_asset), (''/srv/www/srv/x.css'', x_asset\<lparr>Loaded := 150\<rparr>)] \<and>
   Cache (tick x_cache2 200) = [(''/srv/x.css'', x_asset)]"
    using PrepPath_outside
    by (simp add: tick_def x_cache_def x_cache2_def fs_cache_def x_asset_def)
  moreover have "Cache two_cache = [(''/srv/www/index.html'', index_asset),
                      (''/srv/www/a.css'', index_asset\<lparr>Loaded := 80\<rparr>)] \<and>
   Loaded index_asset = 5 \<and>
   Cache (tick two_cache 150) = [(''/srv/www/a.css'', index_asset\<lparr>Loaded := 80\<rparr>)]"
    using p by (simp add: tick_def two_cache_def fs_cache_def index_asset_def)
  ultimately show ?thesis using Gen_x by blast
qed

section \<open>The serving engine: results\<close>

subsection \<open>What the steps leave unchanged\<close>

lemmas hdr_defs = c_Header_def c_GetHeader_def c_SetHeader_def c_DelHeader_def
  Header_Get_def Header_Set_def Header_Del_def

lemma setHSTS_proj [simp]:
  "Status (setHSTS c) = Status c" "R (setHSTS c) = R c" "ContentLength (setHSTS c) = ContentLength c"
  "W_Status (setHSTS c) = W_Status c" "W_Body (setHSTS c) = W_Body c"
  "k \<noteq> ''Strict-Transport-Security'' \<Longrightarrow> W_Header (setHSTS c) k = W_Header c k"
  by (simp_all add: setHSTS_def hdr_defs)

lemma setAcceptRanges_proj [simp]:
  "Status (setAcceptRanges c rd) = Status c" "R (setAcceptRanges c rd) = R c"
  "ContentLength (setAcceptRanges c rd) = ContentLength c"
  "W_Status (setAcceptRanges c rd) = W_Status c" "W_Body (setAcceptRanges c rd) = W_Body c"
  "k \<noteq> ''Accept-Ranges'' \<Longrightarrow> W_Header (setAcceptRanges c rd) k = W_Header c k"
  by (simp_all add: setAcceptRanges_def hdr_defs)

lemma measureContent_proj [simp]:
  "Status (measureContent c content rd) = Status c" "R (measureContent c content rd) = R c"
  "W_Header (measureContent c content rd) = W_Header c"
  "W_Status (measureContent c content rd) = W_Status c" "W_Body (measureContent c content rd) = W_Body c"
  by (simp_all add: measureContent_def)

lemma setContentLength_proj [simp]:
  "Status (setContentLength c) = Status c" "R (setContentLength c) = R c"
  "W_Status (setContentLength c) = W_Status c" "W_Body (setContentLength c) = W_Body c"
  "k \<noteq> ''Content-Length'' \<Longrightarrow> W_Header (setContentLength c) k = W_Header c k"
  by (simp_all add: setContentLength_def hdr_defs)

lemma writeOut_proj [simp]:
  "Status (writeOut c content rd pos) = Status c" "R (writeOut c content rd pos) = R c"
  "W_Header (writeOut c content rd pos) = W_Header c"
  "W_Status (writeOut c content rd pos) = Some (Status c)"
  "Written (writeOut c content rd pos)"
  "ContentLength (writeOut c content rd pos) = ContentLength c"
  by (simp_all add: writeOut_def)

lemma finish_Status [simp]: "Status (finish c content rd pos) = Status c"
  by (simp add: finish_def)

lemma finish_W_Status [simp]: "W_Status (finish c content rd pos) = Some (Status c)"
  by (simp add: finish_def)

lemma finish_Written [simp]: "Written (finish c content rd pos)"
  by (simp add: finish_def)

lemma finish_R [simp]: "R (finish c content rd pos) = R c"
  by (simp add: finish_def)

lemma finish_other_header:
  assumes "k \<noteq> ''Strict-Transport-Security''" "k \<noteq> ''Accept-Ranges''" "k \<noteq> ''Content-Length''"
  shows "W_Header (finish c content rd pos) k = W_Header c k"
  using assms by (simp add: finish_def)

lemma preconditionStep_cases:
  "preconditionStep env c = c \<or> preconditionStep env c = c\<lparr>Status := 412\<rparr>"
  by (simp add: preconditionStep_def Let_def)

lemma conditionalStep_cases:
  "conditionalStep env c = None \<or> conditionalStep env c = Some c \<or>
   conditionalStep env c = Some (c\<lparr>Status := 304\<rparr>) \<or>
   conditionalStep env c = Some (c\<lparr>Status := 412\<rparr>)"
proof (cases "ifNoneMatchLoop (c_Header c ''If-None-Match'') (c_GetHeader c ''Etag'')")
  case None
  then show ?thesis by (simp add: conditionalStep_def Let_def)
next
  case (Some b)
  then show ?thesis by (simp add: conditionalStep_def Let_def)
qed

lemma passes_steps:
  assumes "passesConditions env c" and "Status c < 300"
  shows "preconditionStep env c = c"
proof (rule ccontr)
  assume n: "preconditionStep env c \<noteq> c"
  with preconditionStep_cases[of env c] have p: "preconditionStep env c = c\<lparr>Status := 412\<rparr>"
    by blast
  from assms(1) have s: "conditionalStep env (c\<lparr>Status := 412\<rparr>) = Some c"
    by (simp add: passesConditions_def p)
  from conditionalStep_cases[of env "c\<lparr>Status := 412\<rparr>"] s
  have "c = c\<lparr>Status := 412\<rparr> \<or> c = c\<lparr>Status := 304\<rparr>"
    by auto
  then have "Status c = 412 \<or> Status c = 304"
    by (metis Ctx.select_convs(7) Ctx.surjective Ctx.update_convs(7))
  with assms(2) show False by auto
qed


lemma sized_proj [simp]:
  "Status (sized env c cnt) = Status c" "R (sized env c cnt) = R c"
  "ContentLength (sized env c cnt) = int (length (rs_data cnt))"
  "Written (sized env c cnt) = Written c" "W_Status (sized env c cnt) = W_Status c"
  "W_Body (sized env c cnt) = W_Body c"
  "k \<noteq> ''Content-Type'' \<Longrightarrow> W_Header (sized env c cnt) k = W_Header c k"
  by (simp_all add: sized_def hdr_defs)

lemma ifRangeSkips_upd [simp]:
  "ifRangeSkips env (c\<lparr>ContentLength := n\<rparr>) = ifRangeSkips env c"
  "ifRangeSkips env (c_SetHeader c ''Content-Type'' v) = ifRangeSkips env c"
  by (simp_all add: ifRangeSkips_def Let_def hdr_defs)

lemma c_Header_upd [simp]:
  "c_Header (c\<lparr>ContentLength := n\<rparr>) k = c_Header c k"
  "c_Header (c_SetHeader c k' v) k = c_Header c k"
  by (simp_all add: hdr_defs)

lemma contentStep_sized:
  assumes "\<not> rs_seek_fails cnt"
  shows "contentStep env c cnt =
     (if c_Header c ''Range'' = [] \<or> ifRangeSkips env c
      then (finish (sized env c cnt) (Some cnt) ContentReader 0, Ok ())
      else rangeStep env (sized env c cnt) cnt (c_GetHeader (sized env c cnt) ''Content-Type'')
             (int (length (rs_data cnt))) (c_Header c ''Range''))"
proof (cases "c_GetHeader c ''Content-Type'' = []")
  case True
  have "c_GetHeader (c_SetHeader c ''Content-Type'' v\<lparr>ContentLength := n\<rparr>) ''Content-Type'' = v" for v n
    by (simp add: hdr_defs)
  with True assms show ?thesis
    by (simp add: contentStep_def Let_def sized_def)
next
  case False
  have "c_GetHeader (c\<lparr>ContentLength := n\<rparr>) ''Content-Type'' = c_GetHeader c ''Content-Type''" for n
    by (simp add: hdr_defs)
  with False assms show ?thesis
    by (simp add: contentStep_def Let_def sized_def)
qed

lemma WriteContent_passes:
  assumes "\<not> Written c" and "Status c < 300" and "passesConditions env c" and "\<not> rs_seek_fails cnt"
  shows "WriteContent env c (Some cnt) = contentStep env c cnt"
proof -
  from passes_steps[OF assms(3) assms(2)] assms(3)
  have s: "conditionalStep env (preconditionStep env c) = Some c"
    by (simp add: passesConditions_def)
  show ?thesis
    using assms(1,2) by (simp add: WriteContent_def s)
qed

lemma WriteContent_reaches:
  assumes "reachesRange env c cnt"
  shows "WriteContent env c (Some cnt) =
         rangeStep env (sized env c cnt) cnt (c_GetHeader (sized env c cnt) ''Content-Type'')
           (int (length (rs_data cnt))) (c_Header c ''Range'')"
proof -
  from assms have a: "\<not> Written c" "Status c < 300" "passesConditions env c"
    "\<not> rs_seek_fails cnt" "c_Header c ''Range'' \<noteq> []" "\<not> ifRangeSkips env c"
    by (simp_all add: reachesRange_def)
  show ?thesis
    using a(5,6) by (simp add: WriteContent_passes[OF a(1-4)] contentStep_sized[OF a(4)])
qed

subsection \<open>The loop over the pieces of the \<open>Range\<close> header\<close>




lemma i64_id: "- (2 ^ 63) \<le> x \<Longrightarrow> x < 2 ^ 63 \<Longrightarrow> i64 x = x"
  by (simp add: i64_def)

lemma sumLengths_exact:
  assumes "\<forall>r \<in> set ranges. 0 \<le> length' r" and "0 \<le> init"
    and "init + sum_list (map length' ranges) < 2 ^ 63"
  shows "sumLengths init ranges = init + sum_list (map length' ranges)"
  using assms
proof (induction ranges arbitrary: init)
  case Nil
  then show ?case by (simp add: sumLengths_def)
next
  case (Cons r rs)
  have nn: "0 \<le> sum_list (map length' rs)"
    using Cons.prems(1) by (intro sum_list_nonneg) auto
  from Cons.prems have r0: "0 \<le> length' r" by simp
  from Cons.prems nn r0 have b: "init + length' r < 2 ^ 63" by simp
  with Cons.prems(2) r0 have e: "i64 (init + length' r) = init + length' r"
    by (intro i64_id) auto
  have "sumLengths init (r # rs) = sumLengths (i64 (init + length' r)) rs"
    by (simp add: sumLengths_def)
  also have "\<dots> = sumLengths (init + length' r) rs" by (simp only: e)
  also have "\<dots> = (init + length' r) + sum_list (map length' rs)"
    using Cons.prems r0 by (intro Cons.IH) auto
  finally show ?case by simp
qed

subsection \<open>Ranges beyond the content, and ranges that add up to too much\<close>

lemma finish_whole_content:
  assumes sk: "\<not> rs_seek_fails cnt"
    and cl: "ContentLength c = int (length (rs_data cnt))"
    and st: "Status c = 200"
    and m: "Method (R c) \<noteq> ''HEAD''" "Method (R c) \<noteq> ''CONNECT''"
    and h: "c_GetHeader c ''Content-Length'' = []" "c_GetHeader c ''Transfer-Encoding'' = []"
  shows "W_Body (finish c (Some cnt) ContentReader 0) = Some (rs_data cnt) \<and>
         c_GetHeader (finish c (Some cnt) ContentReader 0) ''Content-Length'' =
           FormatInt (int (length (rs_data cnt)))"
proof -
  define c2 where "c2 = setAcceptRanges (setHSTS c) ContentReader"
  define c3 where "c3 = measureContent c2 (Some cnt) ContentReader"
  define c4 where "c4 = setContentLength c3"
  have c2: "Status c2 = 200" "ContentLength c2 = int (length (rs_data cnt))" "R c2 = R c"
    "W_Header c2 ''Content-Length'' = W_Header c ''Content-Length''"
    "W_Header c2 ''Transfer-Encoding'' = W_Header c ''Transfer-Encoding''"
    by (simp_all add: c2_def st cl)
  have c3: "Status c3 = 200" "ContentLength c3 = int (length (rs_data cnt))" "R c3 = R c"
    "W_Header c3 = W_Header c2"
    using c2 sk by (simp_all add: c3_def measureContent_def seekEnd_def)
  have g: "c_GetHeader c3 ''Content-Length'' = []" "c_GetHeader c3 ''Transfer-Encoding'' = []"
    using h c2 c3 by (simp_all add: c_GetHeader_def Header_Get_def)
  have c4: "c4 = c_SetHeader c3 ''Content-Length'' (FormatInt (int (length (rs_data cnt))))"
    using c3 g m by (simp add: c4_def setContentLength_def)
  have f: "finish c (Some cnt) ContentReader 0 = writeOut c4 (Some cnt) ContentReader 0"
    by (simp add: finish_def c4_def c3_def c2_def)
  have "ContentLength c4 = int (length (rs_data cnt))" "R c4 = R c"
    using c3 by (simp_all add: c4 c_SetHeader_def)
  then have "W_Body (writeOut c4 (Some cnt) ContentReader 0) = Some (rs_data cnt)"
    using m by (simp add: writeOut_def copyN_def)
  moreover have "c_GetHeader (writeOut c4 (Some cnt) ContentReader 0) ''Content-Length'' =
      FormatInt (int (length (rs_data cnt)))"
    by (simp add: c4 hdr_defs)
  ultimately show ?thesis by (simp only: f)
qed



text \<open>
  C10.  The call has reached the parsing of the \<open>Range\<close> header, the loop accepts every
  piece and drops none (\<open>noOverlap\<close> stays unset), every range lies within the
  content, and the lengths add up to more than the size (the sum fits an \<open>int64\<close>).
  Then the ranges are discarded: the call returns without error, the status is the one
  the context came with and is the one written, no \<open>Content-Range\<close> is set and the
  content type is not replaced by a multipart one; for a context with status 200 and no
  content length set, as the instance creates it, the whole content is the body.
\<close>

theorem C10_oversized_ranges:
  assumes "reachesRange env c cnt"
    and "c_Header c ''Range'' = ''bytes='' @ spec"
    and "rangeLoop (int (length (rs_data cnt))) (Split spec CHR '','') [] False = Some (ranges, False)"
    and "\<forall>r \<in> set ranges. 0 \<le> start r \<and> 0 \<le> length' r \<and>
                          start r + length' r \<le> int (length (rs_data cnt))"
    and "sum_list (map length' ranges) > int (length (rs_data cnt))"
    and "sum_list (map length' ranges) < 2 ^ 63"
  shows "snd (WriteContent env c (Some cnt)) = Ok () \<and>
         Status (fst (WriteContent env c (Some cnt))) = Status c \<and>
         W_Status (fst (WriteContent env c (Some cnt))) = Some (Status c) \<and>
         W_Header (fst (WriteContent env c (Some cnt))) ''Content-Range'' = W_Header c ''Content-Range'' \<and>
         W_Header (fst (WriteContent env c (Some cnt))) ''Content-Type'' =
           W_Header (sized env c cnt) ''Content-Type'' \<and>
         (Status c = 200 \<and> Method (R c) \<noteq> ''HEAD'' \<and> Method (R c) \<noteq> ''CONNECT'' \<and>
          c_GetHeader c ''Content-Length'' = [] \<and> c_GetHeader c ''Transfer-Encoding'' = [] \<longrightarrow>
          W_Body (fst (WriteContent env c (Some cnt))) = Some (rs_data cnt) \<and>
          c_GetHeader (fst (WriteContent env c (Some cnt))) ''Content-Length'' =
            FormatInt (int (length (rs_data cnt))))"
proof -
  let ?sz = "int (length (rs_data cnt))"
  let ?c = "sized env c cnt"
  have sk: "\<not> rs_seek_fails cnt" using assms(1) by (simp add: reachesRange_def)
  have "sumLengths 0 ranges = 0 + sum_list (map length' ranges)"
    using assms(4,6) by (intro sumLengths_exact) auto
  with assms(5) have big: "sumLengths 0 ranges > ?sz" by simp
  from assms(5) have ne: "ranges \<noteq> []" by auto
  have "WriteContent env c (Some cnt) =
        rangeStep env ?c cnt (c_GetHeader ?c ''Content-Type'') ?sz (''bytes='' @ spec)"
    using WriteContent_reaches[OF assms(1)] assms(2) by simp
  also have "\<dots> = (finish ?c (Some cnt) ContentReader 0, Ok ())"
    using big ne by (simp add: rangeStep_def HasPrefix_def assms(3) Let_def del: rangeLoop.simps)
  finally have r: "WriteContent env c (Some cnt) = (finish ?c (Some cnt) ContentReader 0, Ok ())" .
  have h: "W_Header (finish ?c (Some cnt) ContentReader 0) ''Content-Range'' = W_Header c ''Content-Range''"
    "W_Header (finish ?c (Some cnt) ContentReader 0) ''Content-Type'' = W_Header ?c ''Content-Type''"
    by (simp_all add: finish_other_header)
  have b: "W_Body (finish ?c (Some cnt) ContentReader 0) = Some (rs_data cnt) \<and>
           c_GetHeader (finish ?c (Some cnt) ContentReader 0) ''Content-Length'' = FormatInt ?sz"
    if "Status c = 200" "Method (R c) \<noteq> ''HEAD''" "Method (R c) \<noteq> ''CONNECT''"
       "c_GetHeader c ''Content-Length'' = []" "c_GetHeader c ''Transfer-Encoding'' = []"
    using that sk by (intro finish_whole_content) (simp_all add: c_GetHeader_def Header_Get_def)
  show ?thesis
    using h b by (simp add: r)
qed

subsection \<open>Concrete runs of the range parsing\<close>

lemmas ex_defs = fresh_ctx_def request_def plain_header_def header_def hello_def http_env_def





lemma c10_reaches: "reachesRange http_env c10_ctx hello"
  by (simp add: reachesRange_def passesConditions_def preconditionStep_def conditionalStep_def
      ifRangeSkips_def Let_def hdr_defs c10_ctx_def ex_defs)

theorem C10_oversized_ranges_witness:
  "reachesRange http_env c10_ctx hello \<and>
   c_Header c10_ctx ''Range'' = ''bytes='' @ ''0-3, 1-4'' \<and>
   rangeLoop 5 (Split ''0-3, 1-4'' CHR '','') [] False =
     Some ([\<lparr>start = 0, length' = 4\<rparr>, \<lparr>start = 1, length' = 4\<rparr>], False) \<and>
   snd (WriteContent http_env c10_ctx (Some hello)) = Ok () \<and>
   Status (fst (WriteContent http_env c10_ctx (Some hello))) = 200 \<and>
   W_Status (fst (WriteContent http_env c10_ctx (Some hello))) = Some 200 \<and>
   W_Header (fst (WriteContent http_env c10_ctx (Some hello))) ''Content-Range'' = [] \<and>
   W_Body (fst (WriteContent http_env c10_ctx (Some hello))) = Some ''hello''"
proof -
  let ?ranges = "[\<lparr>start = 0, length' = 4\<rparr>, \<lparr>start = 1, length' = 4\<rparr>]"
  have h2: "c_Header c10_ctx ''Range'' = ''bytes='' @ ''0-3, 1-4''"
    by (simp add: hdr_defs c10_ctx_def ex_defs)
  have len: "int (length (rs_data hello)) = 5" by (simp add: hello_def)
  have l: "rangeLoop 5 (Split ''0-3, 1-4'' CHR '','') [] False = Some (?ranges, False)"
    by code_simp
  have h3: "rangeLoop (int (length (rs_data hello))) (Split ''0-3, 1-4'' CHR '','') [] False =
            Some (?ranges, False)"
    using l by (simp only: len)
  have h4: "\<forall>r \<in> set ?ranges. 0 \<le> start r \<and> 0 \<le> length' r \<and>
                          start r + length' r \<le> int (length (rs_data hello))"
    by (simp add: len)
  have h5: "sum_list (map length' ?ranges) > int (length (rs_data hello))"
    by (simp add: len)
  have h6: "sum_list (map length' ?ranges) < 2 ^ 63" by simp
  have fresh: "Status c10_ctx = 200 \<and> Method (R c10_ctx) \<noteq> ''HEAD'' \<and>
     Method (R c10_ctx) \<noteq> ''CONNECT'' \<and> c_GetHeader c10_ctx ''Content-Length'' = [] \<and>
     c_GetHeader c10_ctx ''Transfer-Encoding'' = [] \<and> W_Header c10_ctx ''Content-Range'' = []"
    by (simp add: hdr_defs c10_ctx_def ex_defs)
  from C10_oversized_ranges[OF c10_reaches h2 h3 h4 h5 h6] fresh
  have "snd (WriteContent http_env c10_ctx (Some hello)) = Ok () \<and>
   Status (fst (WriteContent http_env c10_ctx (Some hello))) = 200 \<and>
   W_Status (fst (WriteContent http_env c10_ctx (Some hello))) = Some 200 \<and>
   W_Header (fst (WriteContent http_env c10_ctx (Some hello))) ''Content-Range'' = [] \<and>
   W_Body (fst (WriteContent http_env c10_ctx (Some hello))) = Some ''hello''"
    by (simp add: hello_def)
  with c10_reaches h2 l show ?thesis by blast
qed

subsection \<open>Preconditions: \<open>If-Match\<close> and \<open>If-Unmodified-Since\<close>\<close>

lemma scanETag_empty: "scanETag [] = ([], [])"
  by (simp add: scanETag_def TrimString_def Let_def HasPrefix_def)

lemma preconditionStep_proj [simp]:
  "R (preconditionStep env c) = R c" "W_Header (preconditionStep env c) = W_Header c"
  "Written (preconditionStep env c) = Written c"
  "ContentLength (preconditionStep env c) = ContentLength c"
  by (simp_all add: preconditionStep_def Let_def)

lemma Err_distinct: "ErrBadRange \<noteq> ErrPreConditionFail"
  by (simp add: ErrBadRange_def ErrPreConditionFail_def)

lemma rangeStep_not_precondition:
  "snd (rangeStep env c cnt ct sz rh) \<noteq> Error (MakErr ErrPreConditionFail)"
proof (cases "rangeLoop sz (Split (drop 6 rh) CHR '','') [] False")
  case None
  then show ?thesis by (simp add: rangeStep_def Envoy_def Err_distinct)
next
  case (Some p)
  obtain ranges0 noOverlap where p: "p = (ranges0, noOverlap)" by (cases p)
  show ?thesis
    using Some p by (simp add: rangeStep_def Envoy_def Err_distinct Let_def)
qed

lemma contentStep_not_precondition:
  "snd (contentStep env c cnt) \<noteq> Error (MakErr ErrPreConditionFail)"
  by (simp add: contentStep_def Let_def rangeStep_not_precondition)

text \<open>What remains of the call once the conditional steps have left the status alone.\<close>

lemma WriteContent_after_precondition:
  assumes "\<not> Written c" and "Status c < 400"
    and "conditionalStep env (preconditionStep env c) = Some (preconditionStep env c)"
  shows "(snd (WriteContent env c content) = Error (MakErr ErrPreConditionFail) \<and>
          Status (fst (WriteContent env c content)) = 412) \<longleftrightarrow>
         Status (preconditionStep env c) = 412"
proof (cases "Status (preconditionStep env c) = 412")
  case True
  with assms show ?thesis by (simp add: WriteContent_def)
next
  case False
  have "snd (WriteContent env c content) \<noteq> Error (MakErr ErrPreConditionFail)"
  proof (cases content)
    case None
    with assms False show ?thesis by (simp add: WriteContent_def)
  next
    case (Some cnt)
    with assms False show ?thesis
      by (simp add: WriteContent_def contentStep_not_precondition)
  qed
  with False show ?thesis by simp
qed

lemma preconditionStep_Status:
  assumes "Status c \<noteq> 412"
  shows "Status (preconditionStep env c) = 412 \<longleftrightarrow>
         (if c_Header c ''If-Match'' \<noteq> []
          then \<not> ifMatchLoop (c_Header c ''If-Match'') (c_GetHeader c ''Etag'')
          else ParseTime env (c_Header c ''If-Unmodified-Since'') \<noteq> 0 \<and>
               ParseTime env (c_GetHeader c ''Last-Modified'') >
               ParseTime env (c_Header c ''If-Unmodified-Since''))"
  using assms by (auto simp: preconditionStep_def Let_def)

lemma ifMatchLoop_star: "ifMatchLoop ''*'' et"
  by (subst ifMatchLoop.simps) (simp add: TrimString_def isASCIISpace_def)

text \<open>A header made of one tag matches exactly when that tag matches strongly.\<close>

lemma ifMatchLoop_tag:
  assumes "scanETag (TrimString im) = (tag, [])" and "tag \<noteq> []"
    and "hd (TrimString im) \<noteq> CHR '',''" and "hd (TrimString im) \<noteq> CHR ''*''"
  shows "ifMatchLoop im et = eTagStrongMatch tag et"
proof -
  from assms(1,2) scanETag_empty have ne: "TrimString im \<noteq> []"
    by auto
  have e: "ifMatchLoop [] et = False"
    by (subst ifMatchLoop.simps) (simp add: TrimString_def)
  show ?thesis
    by (subst ifMatchLoop.simps) (simp add: assms ne e)
qed

text \<open>
  Where the step for \<open>If-None-Match\<close> and \<open>If-Modified-Since\<close> leaves the context as
  the precondition step left it, a failed precondition is what the call returns.
\<close>

lemma precondition_failure_returned:
  assumes "\<not> Written c" and "Status c < 400"
    and "conditionalStep env (preconditionStep env c) = Some (preconditionStep env c)"
  shows "(c_Header c ''If-Match'' \<noteq> [] \<longrightarrow>
            ((snd (WriteContent env c content) = Error (MakErr ErrPreConditionFail) \<and>
              Status (fst (WriteContent env c content)) = 412) \<longleftrightarrow>
             \<not> ifMatchLoop (c_Header c ''If-Match'') (c_GetHeader c ''Etag''))) \<and>
         (c_Header c ''If-Match'' = [] \<and>
          ParseTime env (c_Header c ''If-Unmodified-Since'') \<noteq> 0 \<longrightarrow>
            ((snd (WriteContent env c content) = Error (MakErr ErrPreConditionFail) \<and>
              Status (fst (WriteContent env c content)) = 412) \<longleftrightarrow>
             ParseTime env (c_GetHeader c ''Last-Modified'') >
             ParseTime env (c_Header c ''If-Unmodified-Since'')))"
proof -
  from assms(2) have n: "Status c \<noteq> 412" by simp
  show ?thesis
    using WriteContent_after_precondition[OF assms, of content] preconditionStep_Status[OF n, of env]
    by simp
qed

text \<open>
  C4.  The response has the ETag \<open>"abc"\<close>.  The loop over \<open>If-Match\<close> finds a match in
  \<open>"abc"\<close>, in \<open>"x", "abc"\<close> and in \<open>*\<close>, and none in \<open>"x"\<close> nor, the tag being weak,
  in \<open>W/"abc"\<close> against itself.  A GET request with \<open>If-Match: "x"\<close> alone ends with
  the status 412 and the error \<open>ErrPreConditionFail\<close>.  The same request with
  \<open>If-None-Match: "abc"\<close> added has its status set to 412 by the precondition step; the
  step that follows sets it to 304, and the call ends with 304 written and no error.
  So does a POST request with \<open>If-Match: "x"\<close> and an \<open>If-Modified-Since\<close> equal to
  the last-modified date.
\<close>

theorem C4_If_Match_overridden:
  "c_GetHeader c4_ctx ''Etag'' = ''\"abc\"'' \<and>
   ifMatchLoop ''\"abc\"'' ''\"abc\"'' \<and>
   ifMatchLoop ''\"x\", \"abc\"'' ''\"abc\"'' \<and>
   ifMatchLoop ''*'' ''\"abc\"'' \<and>
   \<not> ifMatchLoop ''\"x\"'' ''\"abc\"'' \<and>
   \<not> ifMatchLoop ''W/\"abc\"'' ''W/\"abc\"'' \<and>
   Method (R c4_ctx) = ''GET'' \<and>
   c_Header c4_ctx ''If-Match'' = ''\"x\"'' \<and>
   snd (WriteContent http_env c4_ctx (Some hello)) = Error (MakErr ErrPreConditionFail) \<and>
   Status (fst (WriteContent http_env c4_ctx (Some hello))) = 412 \<and>
   Method (R c4_both_ctx) = ''GET'' \<and>
   c_Header c4_both_ctx ''If-Match'' = ''\"x\"'' \<and>
   c_Header c4_both_ctx ''If-None-Match'' = ''\"abc\"'' \<and>
   c_GetHeader c4_both_ctx ''Etag'' = ''\"abc\"'' \<and>
   Status (preconditionStep http_env c4_both_ctx) = 412 \<and>
   snd (WriteContent http_env c4_both_ctx (Some hello)) = Ok () \<and>
   Status (fst (WriteContent http_env c4_both_ctx (Some hello))) = 304 \<and>
   W_Status (fst (WriteContent http_env c4_both_ctx (Some hello))) = Some 304 \<and>
   Method (R c4_post_ctx) = ''POST'' \<and>
   c_Header c4_post_ctx ''If-Match'' = ''\"x\"'' \<and>
   c_GetHeader c4_post_ctx ''Etag'' = ''\"abc\"'' \<and>
   Status (preconditionStep http_env c4_post_ctx) = 412 \<and>
   snd (WriteContent http_env c4_post_ctx (Some hello)) = Ok () \<and>
   Status (fst (WriteContent http_env c4_post_ctx (Some hello))) = 304 \<and>
   W_Status (fst (WriteContent http_env c4_post_ctx (Some hello))) = Some 304"
  by code_simp

subsection \<open>\<open>If-None-Match\<close>\<close>

lemma preconditionStep_Status_le:
  "Status c < 400 \<Longrightarrow> Status (preconditionStep env c) = Status c \<or> Status (preconditionStep env c) = 412"
  using preconditionStep_cases[of env c] by auto

lemma conditionalStep_match:
  assumes "c_Header c ''If-None-Match'' \<noteq> []"
    and "ifNoneMatchLoop (c_Header c ''If-None-Match'') (c_GetHeader c ''Etag'') = Some False"
  shows "conditionalStep env (preconditionStep env c) =
         Some ((preconditionStep env c)\<lparr>Status :=
                 (if Method (R c) = ''GET'' \<or> Method (R c) = ''HEAD'' then 304 else 412)\<rparr>)"
  using assms by (simp add: conditionalStep_def Let_def c_Header_def c_GetHeader_def)

lemma finish_rewound:
  assumes sk: "\<not> rs_seek_fails cnt"
    and cl: "ContentLength c = 0"
    and st: "Status c \<ge> 300"
    and m: "Method (R c) \<noteq> ''HEAD''"
    and h: "W_Header c ''Content-Length'' = []" "c_GetHeader c ''Transfer-Encoding'' = []"
  shows "W_Body (finish c (Some cnt) ContentReader pos) = Some (rs_data cnt) \<and>
         c_GetHeader (finish c (Some cnt) ContentReader pos) ''Content-Length'' =
           FormatInt (int (length (rs_data cnt)))"
proof -
  define c2 where "c2 = setAcceptRanges (setHSTS c) ContentReader"
  define c3 where "c3 = measureContent c2 (Some cnt) ContentReader"
  define c4 where "c4 = setContentLength c3"
  have c2: "Status c2 = Status c" "ContentLength c2 = 0" "R c2 = R c"
    "W_Header c2 ''Content-Length'' = W_Header c ''Content-Length''"
    "W_Header c2 ''Transfer-Encoding'' = W_Header c ''Transfer-Encoding''"
    by (simp_all add: c2_def cl)
  have rw: "rewinds c2 ContentReader" using c2 by (simp add: rewinds_def)
  have c3: "Status c3 = Status c" "ContentLength c3 = int (length (rs_data cnt))" "R c3 = R c"
    "W_Header c3 = W_Header c2"
    using c2 sk rw by (simp_all add: c3_def measureContent_def seekEnd_def)
  have g: "c_GetHeader c3 ''Content-Length'' = []" "c_GetHeader c3 ''Transfer-Encoding'' = []"
    using h c2 c3 by (simp_all add: c_GetHeader_def Header_Get_def)
  have c4: "c4 = c_SetHeader c3 ''Content-Length'' (FormatInt (int (length (rs_data cnt))))"
    using c3 g st by (simp add: c4_def setContentLength_def)
  have f: "finish c (Some cnt) ContentReader pos = writeOut c4 (Some cnt) ContentReader 0"
    using rw by (simp add: finish_def c4_def c3_def c2_def)
  have "ContentLength c4 = int (length (rs_data cnt))" "R c4 = R c"
    using c3 by (simp_all add: c4 c_SetHeader_def)
  then have "W_Body (writeOut c4 (Some cnt) ContentReader 0) = Some (rs_data cnt)"
    using m by (simp add: writeOut_def copyN_def)
  moreover have "c_GetHeader (writeOut c4 (Some cnt) ContentReader 0) ''Content-Length'' =
      FormatInt (int (length (rs_data cnt)))"
    by (simp add: c4 hdr_defs)
  ultimately show ?thesis by (simp only: f)
qed

text \<open>
  What the engine does when \<open>If-None-Match\<close> matches: 304 for GET and HEAD with the
  content type removed, 412 with the error for any other method.
\<close>

lemma if_none_match_status:
  assumes "\<not> Written c" and "Status c < 400"
    and "c_Header c ''If-None-Match'' \<noteq> []"
    and "ifNoneMatchLoop (c_Header c ''If-None-Match'') (c_GetHeader c ''Etag'') = Some False"
  shows "(Method (R c) = ''GET'' \<or> Method (R c) = ''HEAD'' \<longrightarrow>
            snd (WriteContent env c content) = Ok () \<and>
            Status (fst (WriteContent env c content)) = 304 \<and>
            W_Status (fst (WriteContent env c content)) = Some 304 \<and>
            W_Header (fst (WriteContent env c content)) ''Content-Type'' = []) \<and>
         (\<not> (Method (R c) = ''GET'' \<or> Method (R c) = ''HEAD'') \<longrightarrow>
            snd (WriteContent env c content) = Error (MakErr ErrPreConditionFail) \<and>
            Status (fst (WriteContent env c content)) = 412)"
  using assms(1,2)
  by (simp add: WriteContent_def conditionalStep_match[OF assms(3,4)] finish_other_header
      c_DelHeader_def Header_Del_def)

text \<open>
  The deferred writer then sets \<open>Content-Length\<close> again and copies the content: for a
  GET request on a context that came with content length 0 and no transfer encoding,
  the 304 response carries the length of the content, and the content is copied to the
  response writer.
\<close>

lemma not_modified_sets_length:
  assumes "\<not> Written c" and "Status c < 400"
    and "c_Header c ''If-None-Match'' \<noteq> []"
    and "ifNoneMatchLoop (c_Header c ''If-None-Match'') (c_GetHeader c ''Etag'') = Some False"
    and "Method (R c) = ''GET''"
    and "ContentLength c = 0" and "c_GetHeader c ''Transfer-Encoding'' = []"
    and "\<not> rs_seek_fails cnt"
  shows "Status (fst (WriteContent env c (Some cnt))) = 304 \<and>
         c_GetHeader (fst (WriteContent env c (Some cnt))) ''Content-Length'' =
           FormatInt (int (length (rs_data cnt))) \<and>
         W_Body (fst (WriteContent env c (Some cnt))) = Some (rs_data cnt)"
proof -
  let ?c2 = "(preconditionStep env c)\<lparr>Status := 304\<rparr>"
  let ?c3 = "c_DelHeader (c_DelHeader ?c2 ''Content-Type'') ''Content-Length''"
  have w: "WriteContent env c (Some cnt) = (finish ?c3 (Some cnt) ContentReader (int (rs_pos cnt)), Ok ())"
    using assms(1,2,5) by (simp add: WriteContent_def conditionalStep_match[OF assms(3,4)])
  have p: "ContentLength ?c3 = 0" "Status ?c3 \<ge> 300" "Method (R ?c3) \<noteq> ''HEAD''"
    "W_Header ?c3 ''Content-Length'' = []" "c_GetHeader ?c3 ''Transfer-Encoding'' = []"
    using assms(5,6,7) by (simp_all add: hdr_defs)
  have s: "Status ?c3 = 304" by (simp add: hdr_defs)
  from finish_rewound[OF assms(8) p, of "int (rs_pos cnt)"] s show ?thesis
    by (simp add: w)
qed

text \<open>
  C5, at an input where the code departs from it.  A GET request carries
  \<open>If-None-Match: "abc"\<close>, the current ETag; the content is \<open>hello\<close>.  The status
  is 304 and the content type is removed, as the specification says; but the deferred writer
  sets \<open>Content-Length: 5\<close> after the 304 branch has deleted that header, and copies
  the five bytes to the response writer.
\<close>

theorem C5_not_modified_keeps_length:
  "c_Header c5_ctx ''If-None-Match'' = ''\"abc\"'' \<and>
   eTagWeakMatch (c_Header c5_ctx ''If-None-Match'') (c_GetHeader c5_ctx ''Etag'') \<and>
   Method (R c5_ctx) = ''GET'' \<and>
   snd (WriteContent http_env c5_ctx (Some hello)) = Ok () \<and>
   Status (fst (WriteContent http_env c5_ctx (Some hello))) = 304 \<and>
   W_Status (fst (WriteContent http_env c5_ctx (Some hello))) = Some 304 \<and>
   c_GetHeader (fst (WriteContent http_env c5_ctx (Some hello))) ''Content-Type'' = [] \<and>
   c_GetHeader (fst (WriteContent http_env c5_ctx (Some hello))) ''Content-Length'' = ''5'' \<and>
   W_Body (fst (WriteContent http_env c5_ctx (Some hello))) = Some ''hello''"
  by code_simp

subsection \<open>If-Range\<close>

text \<open>
  An \<open>If-Range\<close> header that holds an ETag is no date, so \<open>http.ParseTime\<close> yields
  the zero time for it.  The guard then sets the \<open>Range\<close> header aside whether or not
  the tag matches: a matching tag falls through to the comparison of dates, which fails.
\<close>

lemma ifRange_etag_always_skips:
  assumes "Method (R c) = ''GET'' \<or> Method (R c) = ''HEAD''"
    and "fst (scanETag (c_Header c ''If-Range'')) \<noteq> []"
    and "ParseTime env (c_Header c ''If-Range'') = 0"
  shows "ifRangeSkips env c"
proof -
  from assms(2) have "c_Header c ''If-Range'' \<noteq> []"
    using scanETag_empty by auto
  with assms show ?thesis
    by (auto simp: ifRangeSkips_def Let_def)
qed

text \<open>
  C6, at an input where the code departs from it.  A GET request carries
  \<open>Range: bytes=0-0\<close> and \<open>If-Range: "abc"\<close>, which matches the current ETag
  strongly.  The range is not honoured: the status is 200, no \<open>Content-Range\<close> is
  set, and the whole content is written.
\<close>

theorem C6_matching_If_Range_ignores_Range:
  "c_Header c6_ctx ''Range'' = ''bytes=0-0'' \<and>
   c_Header c6_ctx ''If-Range'' = ''\"abc\"'' \<and>
   eTagStrongMatch (fst (scanETag (c_Header c6_ctx ''If-Range''))) (c_GetHeader c6_ctx ''Etag'') \<and>
   snd (WriteContent http_env c6_ctx (Some hello)) = Ok () \<and>
   Status (fst (WriteContent http_env c6_ctx (Some hello))) = 200 \<and>
   W_Status (fst (WriteContent http_env c6_ctx (Some hello))) = Some 200 \<and>
   c_GetHeader (fst (WriteContent http_env c6_ctx (Some hello))) ''Content-Range'' = [] \<and>
   W_Body (fst (WriteContent http_env c6_ctx (Some hello))) = Some ''hello''"
  by code_simp

end
